theory Spec2Isabelle
  imports Complex_Main
begin

section \<open>JavaScript numbers\<close>

text \<open>
  The values that \<^verbatim>\<open>financial-api.js\<close> computes with are JavaScript numbers. A finite
  number is modelled by the rational it denotes and arithmetic on finite numbers is exact
  (the rounding of IEEE 754 doubles to 53 bits, overflow to infinity and the sign of zero
  are not modelled); the non-finite values \<^verbatim>\<open>Infinity\<close>, \<^verbatim>\<open>-Infinity\<close> and \<^verbatim>\<open>NaN\<close>,
  which the code can produce by dividing by zero, are modelled as they behave.
\<close>

datatype jsnum = Fin rat | PosInf | NegInf | NaN

fun jneg :: "jsnum \<Rightarrow> jsnum" where
  "jneg (Fin a) = Fin (- a)"
| "jneg PosInf = NegInf"
| "jneg NegInf = PosInf"
| "jneg NaN = NaN"

fun jadd :: "jsnum \<Rightarrow> jsnum \<Rightarrow> jsnum" where
  "jadd NaN _ = NaN"
| "jadd _ NaN = NaN"
| "jadd (Fin a) (Fin b) = Fin (a + b)"
| "jadd PosInf NegInf = NaN"
| "jadd NegInf PosInf = NaN"
| "jadd PosInf _ = PosInf"
| "jadd NegInf _ = NegInf"
| "jadd (Fin a) b = b"

definition jsub :: "jsnum \<Rightarrow> jsnum \<Rightarrow> jsnum" where
  "jsub a b = jadd a (jneg b)"

text \<open>The sign of a number: \<open>1\<close>, \<open>0\<close>, \<open>-1\<close>; \<open>None\<close> for \<^verbatim>\<open>NaN\<close>.\<close>

fun jsign :: "jsnum \<Rightarrow> int option" where
  "jsign (Fin a) = Some (if a = 0 then 0 else if 0 < a then 1 else -1)"
| "jsign PosInf = Some 1"
| "jsign NegInf = Some (-1)"
| "jsign NaN = None"

definition inf_of_sign :: "int \<Rightarrow> jsnum" where
  "inf_of_sign s = (if s = 0 then NaN else if 0 < s then PosInf else NegInf)"

fun jmul :: "jsnum \<Rightarrow> jsnum \<Rightarrow> jsnum" where
  "jmul (Fin a) (Fin b) = Fin (a * b)"
| "jmul a b =
     (case (jsign a, jsign b) of
        (Some s, Some t) \<Rightarrow> inf_of_sign (s * t)
      | _ \<Rightarrow> NaN)"

text \<open>
  Division: a finite number divided by zero is \<^verbatim>\<open>NaN\<close> when it is zero and an infinity
  of its own sign otherwise (the zero divisor is taken as \<^verbatim>\<open>+0\<close>).
\<close>

fun jdiv :: "jsnum \<Rightarrow> jsnum \<Rightarrow> jsnum" where
  "jdiv NaN _ = NaN"
| "jdiv _ NaN = NaN"
| "jdiv (Fin a) (Fin b) =
     (if b = 0 then (if a = 0 then NaN else if 0 < a then PosInf else NegInf)
      else Fin (a / b))"
| "jdiv (Fin a) _ = Fin 0"
| "jdiv PosInf (Fin b) = (if 0 \<le> b then PosInf else NegInf)"
| "jdiv NegInf (Fin b) = (if 0 \<le> b then NegInf else PosInf)"
| "jdiv _ _ = NaN"

section \<open>Revision analysis of vintages\<close>






datatype js_error = TypeError | Error string

text \<open>\<^verbatim>\<open>Array.prototype.find\<close>: the first element that satisfies the predicate.\<close>

fun js_find :: "('a \<Rightarrow> bool) \<Rightarrow> 'a list \<Rightarrow> 'a option" where
  "js_find P [] = None"
| "js_find P (x # xs) = (if P x then Some x else js_find P xs)"




section \<open>Strings, patterns and \<^verbatim>\<open>parseFloat\<close>\<close>

text \<open>
  Documents and field texts are strings of code units below 256 (the Latin-1 range):
  a character \<open>c\<close> is the code unit \<open>of_char c\<close>. A page holding a code unit above 255
  has no counterpart here. The two characters that the escaped JSON of the quote pages
  is made of:
\<close>

definition dq :: char where "dq = CHR 0x22"
definition bs :: char where "bs = CHR 0x5C"

text \<open>A key or string as it stands in the page: between two backslash-quote pairs.\<close>

definition esc :: "string \<Rightarrow> string" where
  "esc k = [bs, dq] @ k @ [bs, dq]"

definition is_digit :: "char \<Rightarrow> bool" where
  "is_digit c = (c \<in> set ''0123456789'')"

text \<open>
  The class \<^verbatim>\<open>\s\<close> of a regular expression, the characters \<^verbatim>\<open>trim\<close> removes and the
  ones \<^verbatim>\<open>parseFloat\<close> and \<^verbatim>\<open>parseInt\<close> skip are the white space and line terminator
  characters of the language. Below 256 these are the space, tab, line feed, vertical
  tab, form feed, carriage return and the no-break space U+00A0; the others (U+FEFF,
  U+2028, U+2029 and the space separators from U+1680 on) lie above 255.
\<close>

definition is_space :: "char \<Rightarrow> bool" where
  "is_space c =
     (c \<in> set [CHR '' '', CHR 0x09, CHR 0x0A, CHR 0x0B, CHR 0x0C, CHR 0x0D, CHR 0xA0])"

text \<open>\<^verbatim>\<open>String.prototype.includes\<close>.\<close>

fun js_includes :: "string \<Rightarrow> string \<Rightarrow> bool" where
  "js_includes [] sub = (sub = [])"
| "js_includes (c # s) sub = (take (length sub) (c # s) = sub \<or> js_includes s sub)"

text \<open>
  The regular expressions of the source are sequences of literals and of character
  classes under a quantifier. A pattern is a list of such atoms; matching backtracks
  over the lengths each atom may take, longest first for the greedy quantifiers and
  shortest first for the lazy one, and \<open>str_match\<close> takes the leftmost start at which
  the whole pattern matches, as \<^verbatim>\<open>String.prototype.match\<close> does without the \<^verbatim>\<open>g\<close>
  flag. The result lists the text taken by each atom, from which a capture group is
  read off.
\<close>

datatype cls = Digit | Space | AnyOf string | NoneOf string | DigitOr string | Dot

fun in_cls :: "cls \<Rightarrow> char \<Rightarrow> bool" where
  "in_cls Digit c = is_digit c"
| "in_cls Space c = is_space c"
| "in_cls (AnyOf cs) c = (c \<in> set cs)"
| "in_cls (NoneOf cs) c = (c \<notin> set cs)"
| "in_cls (DigitOr cs) c = (is_digit c \<or> c \<in> set cs)"
| "in_cls Dot c = (c \<notin> set [CHR 0x0A, CHR 0x0D])"

datatype atom = Lit string | One cls | Star cls | Plus cls | Opt cls | LazyStar cls

definition run :: "cls \<Rightarrow> string \<Rightarrow> nat" where
  "run c s = length (takeWhile (in_cls c) s)"

fun lengths :: "atom \<Rightarrow> string \<Rightarrow> nat list" where
  "lengths (Lit l) s = (if take (length l) s = l then [length l] else [])"
| "lengths (One c) s = (if 1 \<le> run c s then [1] else [])"
| "lengths (Star c) s = rev [0 ..< Suc (run c s)]"
| "lengths (Plus c) s = rev [1 ..< Suc (run c s)]"
| "lengths (Opt c) s = (if 1 \<le> run c s then [1, 0] else [0])"
| "lengths (LazyStar c) s = [0 ..< Suc (run c s)]"

fun first_some :: "('a \<Rightarrow> 'b option) \<Rightarrow> 'a list \<Rightarrow> 'b option" where
  "first_some f [] = None"
| "first_some f (x # xs) = (case f x of Some y \<Rightarrow> Some y | None \<Rightarrow> first_some f xs)"

primrec match_here :: "atom list \<Rightarrow> string \<Rightarrow> string list option" where
  "match_here [] s = Some []"
| "match_here (a # as) s =
     first_some (\<lambda>k. map_option (Cons (take k s)) (match_here as (drop k s))) (lengths a s)"

fun str_match :: "atom list \<Rightarrow> string \<Rightarrow> string list option" where
  "str_match p [] = match_here p []"
| "str_match p (c # s) =
     (case match_here p (c # s) of Some ps \<Rightarrow> Some ps | None \<Rightarrow> str_match p s)"

text \<open>
  \<^verbatim>\<open>parseFloat\<close>: leading white space is skipped, then the longest prefix that is a
  decimal literal is read (sign, \<^verbatim>\<open>Infinity\<close>, digits, fraction, exponent); the rest of
  the string is ignored, and the result is \<^verbatim>\<open>NaN\<close> when there is no such prefix.
\<close>

definition digit_val :: "char \<Rightarrow> int" where
  "digit_val c = of_char c - 48"

definition digits_val :: "string \<Rightarrow> int" where
  "digits_val ds = foldl (\<lambda>n c. 10 * n + digit_val c) 0 ds"

definition exponent_of :: "string \<Rightarrow> int" where
  "exponent_of s =
     (case s of
        [] \<Rightarrow> 0
      | c # r \<Rightarrow>
          if c = CHR ''e'' \<or> c = CHR ''E'' then
            (case r of
               [] \<Rightarrow> 0
             | d # r' \<Rightarrow>
                 if d = CHR ''-'' then - digits_val (takeWhile is_digit r')
                 else if d = CHR ''+'' then digits_val (takeWhile is_digit r')
                 else digits_val (takeWhile is_digit r))
          else 0)"

definition scale10 :: "rat \<Rightarrow> int \<Rightarrow> rat" where
  "scale10 x e = (if 0 \<le> e then x * 10 ^ nat e else x / 10 ^ nat (- e))"

definition unsigned_literal :: "string \<Rightarrow> rat option" where
  "unsigned_literal s =
     (let ip = takeWhile is_digit s;
          r1 = dropWhile is_digit s;
          dot = (r1 \<noteq> [] \<and> hd r1 = CHR ''.'');
          fp = (if dot then takeWhile is_digit (tl r1) else []);
          r2 = (if dot then dropWhile is_digit (tl r1) else r1)
      in if ip = [] \<and> fp = [] then None
         else Some (scale10
                (of_int (digits_val ip) + of_int (digits_val fp) / 10 ^ length fp)
                (exponent_of r2)))"

definition parseFloat :: "string \<Rightarrow> jsnum" where
  "parseFloat input =
     (let s = dropWhile is_space input;
          neg = (s \<noteq> [] \<and> hd s = CHR ''-'');
          s1 = (if s \<noteq> [] \<and> (hd s = CHR ''-'' \<or> hd s = CHR ''+'') then tl s else s)
      in if take 8 s1 = ''Infinity'' then (if neg then NegInf else PosInf)
         else (case unsigned_literal s1 of
                 None \<Rightarrow> NaN
               | Some x \<Rightarrow> Fin (if neg then - x else x)))"

section \<open>Economic indicators from FRED, with the Yahoo Finance substitute\<close>

text \<open>
  Values that cross into a row are JavaScript values.
\<close>

datatype jsval =
  Undefined | Null | Bool bool | Num jsnum | Str string
  | Arr "jsval list" | Obj "(string \<times> jsval) list"

text \<open>
  What a request to the FRED observations endpoint can do: fail (transport error,
  timeout, status outside 2xx, so that \<^verbatim>\<open>axios.get\<close> throws), answer with a body whose
  handling throws (an \<^verbatim>\<open>observations\<close> field that has a length but is no array of
  objects), or answer with a body of the documented shape, whose observation values are
  strings or \<^verbatim>\<open>null\<close>. A missing body or field is \<open>None\<close>.
\<close>

record fred_obs =
  fo_date :: string
  fo_value :: "string option"
  fo_realtime_start :: "string option"
  fo_realtime_end :: "string option"

record fred_data =
  fd_observations :: "fred_obs list option"
  fd_realtime_start :: "string option"
  fd_realtime_end :: "string option"
  fd_units :: "string option"
  fd_count :: "nat option"

datatype fred_response = RequestFails | Malformed | Responds "fred_data option"

datatype yahoo_response = YahooFails | YahooPage string

text \<open>
  The world \<^verbatim>\<open>extractEconomicData\<close> runs in: the answer of FRED for each series id, the
  answer of Yahoo Finance to the substitute request made for an indicator key (with the
  symbol requested), and the current date.
\<close>

record env =
  fred :: "string \<Rightarrow> fred_response"
  yahoo :: "string \<Rightarrow> string \<Rightarrow> yahoo_response"
  today :: string

record indicator_value =
  iv_value :: jsval
  iv_date :: string
  iv_seriesId :: string
  iv_source :: "string option"
  iv_realtime_start :: "string option"
  iv_realtime_end :: "string option"
  iv_units :: "string option"

datatype event =
  RequestFred string
  | RequestYahoo string
  | Settled "string list"
  | Sleep nat

definition indicators :: "(string \<times> string) list" where
  "indicators =
    [(''gdp'', ''GDP''), (''realGdp'', ''GDPC1''), (''gdpGrowth'', ''A191RL1Q225SBEA''),
     (''unemployment'', ''UNRATE''), (''employment'', ''PAYEMS''),
     (''laborForce'', ''CIVPART''), (''jobsOpenings'', ''JTSJOL''),
     (''inflation'', ''CPIAUCSL''), (''coreCpi'', ''CPILFESL''), (''pce'', ''PCEPI''),
     (''corePce'', ''PCEPILFE''), (''producerPrices'', ''PPIACO''),
     (''federalFunds'', ''FEDFUNDS''), (''treasury1m'', ''DGS1MO''),
     (''treasury3m'', ''DGS3MO''), (''treasury6m'', ''DGS6MO''),
     (''treasury1y'', ''DGS1''), (''treasury2y'', ''DGS2''), (''treasury5y'', ''DGS5''),
     (''treasury10y'', ''DGS10''), (''treasury30y'', ''DGS30''), (''m1Money'', ''M1SL''),
     (''m2Money'', ''M2SL''), (''retailSales'', ''RSAFS''),
     (''consumerSentiment'', ''UMCSENT''), (''industrialProduction'', ''INDPRO''),
     (''housingStarts'', ''HOUST''), (''newHomeSales'', ''HSN1F''),
     (''existingHomeSales'', ''EXHOSLUSM495S''), (''vix'', ''VIXCLS''),
     (''sp500'', ''SP500''), (''tradeBalance'', ''BOPGSTB''),
     (''federalDebt'', ''GFDEBTN''), (''debtToGdp'', ''GFDEGDQ188S'')]"

definition maxConcurrent :: nat where "maxConcurrent = 5"

definition delay :: nat where "delay = 500"

text \<open>An observation that is not the placeholder: \<^verbatim>\<open>obs.value !== '.' && obs.value !== null\<close>.\<close>

definition valid_obs :: "fred_obs \<Rightarrow> bool" where
  "valid_obs obs = (fo_value obs \<noteq> Some ''.'' \<and> fo_value obs \<noteq> None)"

text \<open>\<^verbatim>\<open>a || b\<close> on an optional string: the empty string is falsy.\<close>

definition or_else :: "string option \<Rightarrow> string \<Rightarrow> string" where
  "or_else a b = (case a of None \<Rightarrow> b | Some x \<Rightarrow> if x = [] then b else x)"

text \<open>
  The body of the worker's \<^verbatim>\<open>try\<close>: the request, then the first valid observation, if
  any, becomes the indicator's value. \<open>Inl\<close> is an exception thrown inside the
  \<^verbatim>\<open>try\<close>; \<open>Inr None\<close> is a normal end that stored nothing.
\<close>

definition fredAttempt :: "fred_response \<Rightarrow> string \<Rightarrow> js_error + indicator_value option" where
  "fredAttempt response seriesId =
     (case response of
        RequestFails \<Rightarrow> Inl (Error ''request failed'')
      | Malformed \<Rightarrow> Inl TypeError
      | Responds None \<Rightarrow> Inr None
      | Responds (Some data) \<Rightarrow>
          (case fd_observations data of
             None \<Rightarrow> Inr None
           | Some obs \<Rightarrow>
               if 0 < length obs then
                 (case js_find valid_obs obs of
                    Some latestObs \<Rightarrow>
                      Inr (Some \<lparr> iv_value = Num (parseFloat (the (fo_value latestObs))),
                                  iv_date = fo_date latestObs,
                                  iv_seriesId = seriesId,
                                  iv_source = None,
                                  iv_realtime_start = fd_realtime_start data,
                                  iv_realtime_end = fd_realtime_end data,
                                  iv_units = Some (or_else (fd_units data) ''Unknown'') \<rparr>)
                  | None \<Rightarrow> Inr None)
               else Inr None))"

definition symbolMap :: "(string \<times> string) list" where
  "symbolMap =
    [(''treasury1m'', ''^IRX''), (''treasury3m'', ''^IRX''), (''treasury6m'', ''^IRX''),
     (''treasury1y'', ''^TNX''), (''treasury2y'', ''^TNX''), (''treasury5y'', ''^TNX''),
     (''treasury10y'', ''^TNX''), (''treasury30y'', ''^TYX'')]"

definition fallbackSymbol :: "string \<Rightarrow> string" where
  "fallbackSymbol key = (case map_of symbolMap key of Some s \<Rightarrow> s | None \<Rightarrow> ''^TNX'')"

text \<open>
  \<^verbatim>\<open>/\\"regularMarketPrice\\":\{[^}]*\\"raw\\":(\d+\.?\d*)/\<close>; the group is the text of
  the last three atoms.
\<close>

definition regularMarketPricePattern :: "atom list" where
  "regularMarketPricePattern =
     [Lit (esc ''regularMarketPrice'' @ '':{''), Star (NoneOf ''}''),
      Lit (esc ''raw'' @ '':''), Plus Digit, Opt (AnyOf ''.''), Star Digit]"

text \<open>
  The body of the inner \<^verbatim>\<open>try\<close>, whose \<^verbatim>\<open>catch\<close> is empty: whatever fails in it, the
  request or reading the page, stores nothing and goes no further.
\<close>

definition yahooAttempt :: "yahoo_response \<Rightarrow> string \<Rightarrow> string \<Rightarrow> indicator_value option" where
  "yahooAttempt response symbol currentDate =
     (case response of
        YahooFails \<Rightarrow> None
      | YahooPage html \<Rightarrow>
          (case str_match regularMarketPricePattern html of
             Some priceMatch \<Rightarrow>
               Some \<lparr> iv_value = Num (parseFloat (concat (drop 3 priceMatch))),
                      iv_date = currentDate,
                      iv_seriesId = symbol,
                      iv_source = Some ''yahoo_finance'',
                      iv_realtime_start = None,
                      iv_realtime_end = None,
                      iv_units = Some ''Percent'' \<rparr>
           | None \<Rightarrow> None))"

text \<open>
  The worker that \<^verbatim>\<open>batch.map\<close> starts for one entry runs up to its first \<^verbatim>\<open>await\<close>,
  the request to FRED, before \<^verbatim>\<open>map\<close> starts the next one. \<open>batchWorker\<close> is the rest
  of the worker, from the answer to that request on: it returns the requests it made
  after the first and what it stored under its key, if anything; \<open>Inl\<close> would be a
  rejected promise.
\<close>

definition batchWorker ::
  "env \<Rightarrow> string \<times> string \<Rightarrow> js_error + (event list \<times> indicator_value option)" where
  "batchWorker e entry =
     (case entry of (key, seriesId) \<Rightarrow>
        (case fredAttempt (fred e seriesId) seriesId of
           Inr stored \<Rightarrow> Inr ([], stored)
         | Inl error \<Rightarrow>
             if js_includes key ''treasury'' then
               (let symbol = fallbackSymbol key
                in Inr ([RequestYahoo symbol],
                        yahooAttempt (yahoo e key symbol) symbol (today e)))
             else Inr ([], None)))"

text \<open>
  \<^verbatim>\<open>await Promise.all(batchPromises)\<close> resumes when every promise has fulfilled, and
  throws as soon as one rejects.
\<close>

fun promise_all :: "(js_error + 'a) list \<Rightarrow> js_error + 'a list" where
  "promise_all [] = Inr []"
| "promise_all (Inl err # ps) = Inl err"
| "promise_all (Inr x # ps) = (case promise_all ps of Inl err \<Rightarrow> Inl err | Inr xs \<Rightarrow> Inr (x # xs))"

text \<open>\<^verbatim>\<open>results[key] = v\<close> on an object whose keys are kept in insertion order.\<close>

fun assign :: "(string \<times> 'v) list \<Rightarrow> string \<Rightarrow> 'v \<Rightarrow> (string \<times> 'v) list" where
  "assign [] k v = [(k, v)]"
| "assign ((k', v') # kvs) k v = (if k' = k then (k, v) # kvs else (k', v') # assign kvs k v)"

definition store :: "(string \<times> 'v) list \<Rightarrow> string \<times> 'v option \<Rightarrow> (string \<times> 'v) list" where
  "store results kv = (case snd kv of None \<Rightarrow> results | Some v \<Rightarrow> assign results (fst kv) v)"

record loop_state =
  results :: "(string \<times> indicator_value) list"
  trace :: "event list"

text \<open>
  The \<^verbatim>\<open>for\<close> loop over the entries, \<open>i\<close> stepping by \<open>maxConcurrent\<close>. \<^verbatim>\<open>batch.map\<close>
  issues the requests to FRED of the whole batch, in the order of the batch, before any
  worker goes on. The workers then resume as the answers arrive, in an order that the
  network decides; each writes its own key only. The model lets them resume in the
  order of the batch: among the requests to Yahoo of one batch, and among the keys that
  one batch adds to \<^verbatim>\<open>results\<close>, the order is the model's choice.
\<close>

function batchLoop ::
  "env \<Rightarrow> (string \<times> string) list \<Rightarrow> nat \<Rightarrow> loop_state \<Rightarrow> js_error + loop_state" where
  "batchLoop e indicatorEntries i st =
     (if i < length indicatorEntries then
        (let batch = take maxConcurrent (drop i indicatorEntries)
         in case promise_all (map (batchWorker e) batch) of
              Inl err \<Rightarrow> Inl err
            | Inr outs \<Rightarrow>
                (let st1 = \<lparr> results = foldl store (results st) (zip (map fst batch) (map snd outs)),
                              trace = trace st
                                @ map (\<lambda>(key, seriesId). RequestFred seriesId) batch
                                @ concat (map fst outs) @ [Settled (map fst batch)] \<rparr>;
                     st2 = (if i + maxConcurrent < length indicatorEntries
                            then st1 \<lparr> trace := trace st1 @ [Sleep delay] \<rparr> else st1)
                 in batchLoop e indicatorEntries (i + maxConcurrent) st2))
      else Inr st)"
  by pat_completeness auto
termination
  by (relation "measure (\<lambda>(e, entries, i, st). length entries - i)")
     (auto simp: maxConcurrent_def)

declare batchLoop.simps [simp del]

text \<open>
  \<^verbatim>\<open>extractEconomicData\<close> from \<^verbatim>\<open>const results = {}\<close> on, for any list of entries; an
  exception that reached the outer \<^verbatim>\<open>catch\<close> would give \<^verbatim>\<open>null\<close>. The first component
  is what the call did, in order.
\<close>

definition runIndicators ::
  "env \<Rightarrow> (string \<times> string) list \<Rightarrow> event list \<times> (string \<times> indicator_value) list option" where
  "runIndicators e indicatorEntries =
     (case batchLoop e indicatorEntries 0 \<lparr> results = [], trace = [] \<rparr> of
        Inl error \<Rightarrow> ([], None)
      | Inr st \<Rightarrow> (trace st, if 0 < length (results st) then Some (results st) else None))"

definition extractEconomicData ::
  "env \<Rightarrow> event list \<times> (string \<times> indicator_value) list option" where
  "extractEconomicData e = runIndicators e indicators"





subsection \<open>One series\<close>














subsection \<open>The schedule that the batch loop is compared with\<close>

text \<open>
  The items in consecutive groups of \<open>c\<close>, and the course of events that runs the
  groups one after the other: the requests to FRED of a group's items, what the items
  request after that, the group settled, and a pause before the next group if there is
  one.
\<close>

function groups_of :: "nat \<Rightarrow> 'a list \<Rightarrow> 'a list list" where
  "groups_of c xs = (if xs = [] \<or> c = 0 then [] else take c xs # groups_of c (drop c xs))"
  by pat_completeness auto
termination
  by (relation "measure (\<lambda>(c, xs). length xs)") auto

declare groups_of.simps [simp del]

definition worker_out :: "env \<Rightarrow> string \<times> string \<Rightarrow> event list \<times> indicator_value option" where
  "worker_out e entry = (case batchWorker e entry of Inr out \<Rightarrow> out | Inl err \<Rightarrow> ([], None))"

definition group_requests :: "env \<Rightarrow> (string \<times> string) list \<Rightarrow> event list" where
  "group_requests e g =
     map (\<lambda>en. RequestFred (snd en)) g @ concat (map (\<lambda>en. fst (worker_out e en)) g)"

fun scheduled :: "env \<Rightarrow> (string \<times> string) list list \<Rightarrow> event list" where
  "scheduled e [] = []"
| "scheduled e [g] = group_requests e g @ [Settled (map fst g)]"
| "scheduled e (g # gs) =
     group_requests e g @ [Settled (map fst g), Sleep delay] @ scheduled e gs"

definition lookup_result :: "(string \<times> 'v) list option \<Rightarrow> string \<Rightarrow> 'v option" where
  "lookup_result r key = (case r of None \<Rightarrow> None | Some kvs \<Rightarrow> map_of kvs key)"

text \<open>Two worlds that answer alike for the requests of one entry.\<close>

definition same_answers :: "env \<Rightarrow> env \<Rightarrow> string \<times> string \<Rightarrow> bool" where
  "same_answers e e' entry =
     (fred e' (snd entry) = fred e (snd entry) \<and>
      yahoo e' (fst entry) (fallbackSymbol (fst entry)) = yahoo e (fst entry) (fallbackSymbol (fst entry)) \<and>
      today e' = today e)"

subsection \<open>Example worlds\<close>

text \<open>
  A response body with the given observations, a quote page that carries a price, a
  world in which one FRED request fails and Yahoo Finance is down, and a world in which
  every series has nothing but a placeholder.
\<close>

definition obs_of :: "string \<Rightarrow> string option \<Rightarrow> fred_obs" where
  "obs_of d v = \<lparr> fo_date = d, fo_value = v, fo_realtime_start = Some ''2024-05-02'',
                  fo_realtime_end = Some ''2024-05-02'' \<rparr>"

definition data_of :: "fred_obs list \<Rightarrow> fred_data" where
  "data_of obs =
     \<lparr> fd_observations = Some obs, fd_realtime_start = Some ''2024-05-02'',
        fd_realtime_end = Some ''2024-05-02'', fd_units = None,
        fd_count = Some (length obs) \<rparr>"

definition body_of :: "fred_obs list \<Rightarrow> fred_response" where
  "body_of obs = Responds (Some (data_of obs))"

definition price_page :: string where
  "price_page = esc ''regularMarketPrice'' @ '':{'' @ esc ''raw'' @ '':4.25,'' @ esc ''fmt''
                @ '':'' @ esc ''4.25'' @ ''}''"

definition one_down :: env where
  "one_down = \<lparr> fred = (\<lambda>s. if s = ''DGS10'' then RequestFails
                            else body_of [obs_of ''2024-05-01'' (Some ''4.1'')]),
                yahoo = (\<lambda>k s. YahooFails), today = ''2024-05-02'' \<rparr>"

definition placeholder_world :: env where
  "placeholder_world = \<lparr> fred = (\<lambda>s. body_of [obs_of ''2024-05-01'' (Some ''.'')]),
                          yahoo = (\<lambda>k s. YahooPage price_page), today = ''2024-05-02'' \<rparr>"

section \<open>Correlation analysis\<close>

text \<open>More of \<^verbatim>\<open>Math\<close> and of the operators on numbers.\<close>

fun jabs :: "jsnum \<Rightarrow> jsnum" where
  "jabs (Fin a) = Fin \<bar>a\<bar>"
| "jabs PosInf = PosInf"
| "jabs NegInf = PosInf"
| "jabs NaN = NaN"

text \<open>\<open>a \<le> b\<close> on numbers other than \<^verbatim>\<open>NaN\<close>.\<close>

fun jle :: "jsnum \<Rightarrow> jsnum \<Rightarrow> bool" where
  "jle (Fin a) (Fin b) = (a \<le> b)"
| "jle NegInf _ = True"
| "jle _ PosInf = True"
| "jle _ _ = False"

text \<open>\<^verbatim>\<open>Math.max\<close> and \<^verbatim>\<open>Math.min\<close> of two numbers: \<^verbatim>\<open>NaN\<close> if either is.\<close>

fun jmax :: "jsnum \<Rightarrow> jsnum \<Rightarrow> jsnum" where
  "jmax NaN _ = NaN"
| "jmax _ NaN = NaN"
| "jmax a b = (if jle a b then b else a)"

fun jmin :: "jsnum \<Rightarrow> jsnum \<Rightarrow> jsnum" where
  "jmin NaN _ = NaN"
| "jmin _ NaN = NaN"
| "jmin a b = (if jle a b then a else b)"

text \<open>\<^verbatim>\<open>Math.round\<close>: the nearest integer, a tie going up.\<close>

fun jround :: "jsnum \<Rightarrow> jsnum" where
  "jround (Fin a) = Fin (of_int \<lfloor>a + 1 / 2\<rfloor>)"
| "jround x = x"

text \<open>Truthiness of a property that holds a number or is missing.\<close>

fun truthy :: "jsnum option \<Rightarrow> bool" where
  "truthy None = False"
| "truthy (Some (Fin a)) = (a \<noteq> 0)"
| "truthy (Some NaN) = False"
| "truthy (Some _) = True"

text \<open>
  \<^verbatim>\<open>parseInt\<close> without a radix, for the texts it is given here, which are runs of
  decimal digits (after optional white space and sign).
\<close>

definition parseInt :: "string \<Rightarrow> jsnum" where
  "parseInt input =
     (let s = dropWhile is_space input;
          neg = (s \<noteq> [] \<and> hd s = CHR ''-'');
          s1 = (if s \<noteq> [] \<and> (hd s = CHR ''-'' \<or> hd s = CHR ''+'') then tl s else s);
          ds = takeWhile is_digit s1
      in if ds = [] then NaN
         else Fin (of_int (if neg then - digits_val ds else digits_val ds)))"

text \<open>
  The patterns of the correlation extractor all have the shape
  \<^verbatim>\<open>\\"key\\":\{[^}]*\\"raw\\":(...)\<close> with a group of digits, with or without a
  leading minus and a fraction. The group is the text of the atoms after the third.
\<close>

definition rawPattern :: "string \<Rightarrow> bool \<Rightarrow> bool \<Rightarrow> atom list" where
  "rawPattern key signed fraction =
     [Lit (esc key @ '':{''), Star (NoneOf ''}''), Lit (esc ''raw'' @ '':'')]
     @ (if signed then [Opt (AnyOf ''-'')] else [])
     @ [Plus Digit]
     @ (if fraction then [Opt (AnyOf ''.''), Star Digit] else [])"

definition rawMatch :: "string \<Rightarrow> bool \<Rightarrow> bool \<Rightarrow> string \<Rightarrow> string option" where
  "rawMatch key signed fraction html =
     map_option (\<lambda>ps. concat (drop 3 ps)) (str_match (rawPattern key signed fraction) html)"

record metrics =
  m_price :: "jsnum option"
  m_change :: "jsnum option"
  m_changePercent :: "jsnum option"
  m_beta :: "jsnum option"
  m_fiftyTwoWeekHigh :: "jsnum option"
  m_fiftyTwoWeekLow :: "jsnum option"
  m_volume :: "jsnum option"
  m_relativePosition :: "jsnum option"

definition relativePositionOf ::
  "jsnum option \<Rightarrow> jsnum option \<Rightarrow> jsnum option \<Rightarrow> jsnum option" where
  "relativePositionOf price high low =
     (if truthy price \<and> truthy high \<and> truthy low
      then Some (jdiv (jsub (the price) (the low)) (jsub (the high) (the low)))
      else None)"

text \<open>What the \<^verbatim>\<open>try\<close> of one symbol computes from the page.\<close>

definition extractMetrics :: "string \<Rightarrow> metrics" where
  "extractMetrics html =
     (let price = map_option parseFloat (rawMatch ''regularMarketPrice'' False True html);
          change = map_option parseFloat (rawMatch ''regularMarketChange'' True True html);
          changePercent =
            map_option parseFloat (rawMatch ''regularMarketChangePercent'' True True html);
          beta = map_option parseFloat (rawMatch ''beta'' False True html);
          high = map_option parseFloat (rawMatch ''fiftyTwoWeekHigh'' False True html);
          low = map_option parseFloat (rawMatch ''fiftyTwoWeekLow'' False True html);
          volume = map_option parseInt (rawMatch ''regularMarketVolume'' False False html)
      in \<lparr> m_price = price, m_change = change, m_changePercent = changePercent,
            m_beta = beta, m_fiftyTwoWeekHigh = high, m_fiftyTwoWeekLow = low,
            m_volume = volume, m_relativePosition = relativePositionOf price high low \<rparr>)"

text \<open>
  \<^verbatim>\<open>priceData[symbol] = metrics\<close> on a plain object: the key \<^verbatim>\<open>__proto__\<close> sets the
  prototype and adds no key. \<^verbatim>\<open>Object.keys\<close> lists the keys that are array indices
  first, in ascending order, then the others in the order of their creation.
\<close>

definition set_property :: "(string \<times> 'v) list \<Rightarrow> string \<Rightarrow> 'v \<Rightarrow> (string \<times> 'v) list" where
  "set_property obj k v = (if k = ''__proto__'' then obj else assign obj k v)"

definition is_index :: "string \<Rightarrow> bool" where
  "is_index k =
     (k \<noteq> [] \<and> list_all is_digit k \<and> (k = ''0'' \<or> hd k \<noteq> CHR ''0'')
      \<and> digits_val k < 4294967295)"

definition object_keys :: "(string \<times> 'v) list \<Rightarrow> string list" where
  "object_keys obj =
     sort_key digits_val (filter is_index (map fst obj))
     @ filter (\<lambda>k. \<not> is_index k) (map fst obj)"

text \<open>
  The loop over the symbols: request \<open>i\<close> of the call asks for the page of a symbol; a
  failed request, or a body that is no text, is caught and the symbol left out.
\<close>

fun fetchPrices ::
  "(nat \<Rightarrow> string \<Rightarrow> yahoo_response) \<Rightarrow> nat \<Rightarrow> string list \<Rightarrow> (string \<times> metrics) list
   \<Rightarrow> (string \<times> metrics) list" where
  "fetchPrices net i [] priceData = priceData"
| "fetchPrices net i (symbol # rest) priceData =
     fetchPrices net (Suc i) rest
       (case net i symbol of
          YahooFails \<Rightarrow> priceData
        | YahooPage html \<Rightarrow> set_property priceData symbol (extractMetrics html))"

text \<open>The estimate for two different symbols.\<close>

definition capped :: "jsnum \<Rightarrow> jsnum" where
  "capped correlation =
     jdiv (jround (jmul (jmin (Fin (95 / 100)) (jmax (Fin (- 1 / 2)) correlation)) (Fin 1000)))
          (Fin 1000)"

definition estimate :: "metrics \<Rightarrow> metrics \<Rightarrow> jsnum" where
  "estimate data1 data2 =
     (let c0 = Fin (1 / 10);
          c1 = (if truthy (m_beta data1) \<and> truthy (m_beta data2) then
                  (let betaDiff = jabs (jsub (the (m_beta data1)) (the (m_beta data2)))
                   in jadd c0 (jmul (jmax (Fin 0) (jdiv (jsub (Fin 2) betaDiff) (Fin 2)))
                                    (Fin (3 / 10))))
                else c0);
          c2 = (if m_changePercent data1 \<noteq> None \<and> m_changePercent data2 \<noteq> None then
                  (let perfDiff = jabs (jsub (the (m_changePercent data1))
                                             (the (m_changePercent data2)))
                   in jadd c1 (jmul (jmax (Fin 0) (jdiv (jsub (Fin 10) perfDiff) (Fin 10)))
                                    (Fin (3 / 10))))
                else c1);
          c3 = (if truthy (m_relativePosition data1) \<and> truthy (m_relativePosition data2) then
                  (let posDiff = jabs (jsub (the (m_relativePosition data1))
                                            (the (m_relativePosition data2)))
                   in jadd c2 (jmul (jmax (Fin 0) (jsub (Fin 1) posDiff)) (Fin (2 / 10))))
                else c2)
      in capped c3)"

text \<open>\<^verbatim>\<open>priceData[symbol]\<close> for a symbol among the keys.\<close>

definition metrics_of :: "(string \<times> metrics) list \<Rightarrow> string \<Rightarrow> metrics" where
  "metrics_of priceData symbol = the (map_of priceData symbol)"

definition matrixRow ::
  "(string \<times> metrics) list \<Rightarrow> string list \<Rightarrow> nat \<Rightarrow> (string \<times> jsnum) list" where
  "matrixRow priceData validSymbols i =
     foldl (\<lambda>row j.
              assign row (validSymbols ! j)
                (if i = j then Fin 1
                 else estimate (metrics_of priceData (validSymbols ! i))
                               (metrics_of priceData (validSymbols ! j))))
           [] [0 ..< length validSymbols]"

definition buildMatrix ::
  "(string \<times> metrics) list \<Rightarrow> string list \<Rightarrow> (string \<times> (string \<times> jsnum) list) list" where
  "buildMatrix priceData validSymbols =
     foldl (\<lambda>m i. assign m (validSymbols ! i) (matrixRow priceData validSymbols i))
           [] [0 ..< length validSymbols]"

record correlationData =
  cd_symbols :: "string list"
  cd_priceData :: "(string \<times> metrics) list"
  cd_correlationMatrix :: "(string \<times> (string \<times> jsnum) list) list"
  cd_analysisDate :: string

text \<open>
  \<^verbatim>\<open>extractStockCorrelationData\<close>, with the pages it asked for, in order. The error for
  fewer than two symbols is thrown inside the function's own \<^verbatim>\<open>try\<close>, whose \<^verbatim>\<open>catch\<close>
  returns \<^verbatim>\<open>null\<close>.
\<close>

definition correlationBody ::
  "(nat \<Rightarrow> string \<Rightarrow> yahoo_response) \<Rightarrow> string \<Rightarrow> string list
   \<Rightarrow> string list \<times> (js_error + correlationData option)" where
  "correlationBody net currentDate symbols =
     (if length symbols < 2 then
        ([], Inl (Error ''Need at least 2 symbols for correlation analysis''))
      else
        (let priceData = fetchPrices net 0 symbols [];
             validSymbols = object_keys priceData;
             correlationMatrix = buildMatrix priceData validSymbols
         in (symbols,
             if 0 < length (object_keys correlationMatrix) then
               Inr (Some \<lparr> cd_symbols = validSymbols, cd_priceData = priceData,
                             cd_correlationMatrix = correlationMatrix,
                             cd_analysisDate = currentDate \<rparr>)
             else Inr None)))"

definition extractStockCorrelationData ::
  "(nat \<Rightarrow> string \<Rightarrow> yahoo_response) \<Rightarrow> string \<Rightarrow> string list
   \<Rightarrow> string list \<times> (js_error + correlationData option)" where
  "extractStockCorrelationData net currentDate symbols =
     (case correlationBody net currentDate symbols of
        (requests, Inl error) \<Rightarrow> (requests, Inr None)
      | (requests, Inr result) \<Rightarrow> (requests, Inr result))"

record correlation_row =
  cr_symbol_1 :: string
  cr_symbol_2 :: string
  cr_correlation :: jsval
  cr_symbol_1_price :: jsval
  cr_symbol_2_price :: jsval
  cr_symbol_1_change_percent :: jsval
  cr_symbol_2_change_percent :: jsval
  cr_analysis_date :: string

text \<open>\<^verbatim>\<open>x || null\<close> for a property that holds a number or is missing.\<close>

definition or_null :: "jsnum option \<Rightarrow> jsval" where
  "or_null x = (if truthy x then Num (the x) else Null)"

text \<open>\<^verbatim>\<open>obj[k]\<close>, \<^verbatim>\<open>undefined\<close> for a missing key.\<close>

definition entry_of :: "(string \<times> (string \<times> jsnum) list) list \<Rightarrow> string \<Rightarrow> string \<Rightarrow> jsval" where
  "entry_of m s1 s2 =
     (case map_of m s1 of
        None \<Rightarrow> Undefined
      | Some row \<Rightarrow> (case map_of row s2 of None \<Rightarrow> Undefined | Some x \<Rightarrow> Num x))"

definition price_field :: "(string \<times> metrics) list \<Rightarrow> string \<Rightarrow> (metrics \<Rightarrow> jsnum option) \<Rightarrow> jsval" where
  "price_field priceData s f =
     (case map_of priceData s of None \<Rightarrow> Null | Some m \<Rightarrow> or_null (f m))"

definition toCorrelationRows :: "correlationData option \<Rightarrow> correlation_row list" where
  "toCorrelationRows correlationData =
     (case correlationData of
        None \<Rightarrow> []
      | Some cd \<Rightarrow>
          concat (map (\<lambda>symbol1.
            concat (map (\<lambda>symbol2.
              if symbol1 \<noteq> symbol2 then
                [\<lparr> cr_symbol_1 = symbol1,
                    cr_symbol_2 = symbol2,
                    cr_correlation = entry_of (cd_correlationMatrix cd) symbol1 symbol2,
                    cr_symbol_1_price = price_field (cd_priceData cd) symbol1 m_price,
                    cr_symbol_2_price = price_field (cd_priceData cd) symbol2 m_price,
                    cr_symbol_1_change_percent =
                      price_field (cd_priceData cd) symbol1 m_changePercent,
                    cr_symbol_2_change_percent =
                      price_field (cd_priceData cd) symbol2 m_changePercent,
                    cr_analysis_date = cd_analysisDate cd \<rparr>]
              else []) (cd_symbols cd))) (cd_symbols cd)))"

text \<open>
  \<^verbatim>\<open>fetchStockCorrelation\<close> checks the number of symbols itself, before it calls the
  extractor, and rethrows.
\<close>

definition fetchStockCorrelation ::
  "(nat \<Rightarrow> string \<Rightarrow> yahoo_response) \<Rightarrow> string \<Rightarrow> string list
   \<Rightarrow> string list \<times> (js_error + correlation_row list)" where
  "fetchStockCorrelation net currentDate symbols =
     (if length symbols < 2 then
        ([], Inl (Error ''Need at least 2 symbols for correlation analysis''))
      else
        (case extractStockCorrelationData net currentDate symbols of
           (requests, Inl error) \<Rightarrow> (requests, Inl error)
         | (requests, Inr None) \<Rightarrow> (requests, Inl (Error ''Could not extract correlation data''))
         | (requests, Inr (Some correlationData)) \<Rightarrow>
             (requests, Inr (toCorrelationRows (Some correlationData)))))"

subsection \<open>Example pages\<close>

text \<open>
  A quote page of a quiet stock, and one whose price stands above a 52-week range that
  has no width.
\<close>

definition raw_field :: "string \<Rightarrow> string \<Rightarrow> string" where
  "raw_field key number = esc key @ '':{'' @ esc ''raw'' @ '':'' @ number @ ''}''"

definition quiet_page :: string where
  "quiet_page = raw_field ''regularMarketPrice'' ''150'' @ '','' @
     raw_field ''regularMarketChangePercent'' ''1.5'' @ '','' @ raw_field ''beta'' ''1.2'' @ '','' @
     raw_field ''fiftyTwoWeekHigh'' ''200'' @ '','' @ raw_field ''fiftyTwoWeekLow'' ''100''"

definition flat_range_page :: string where
  "flat_range_page = raw_field ''regularMarketPrice'' ''10'' @ '','' @
     raw_field ''fiftyTwoWeekHigh'' ''5'' @ '','' @ raw_field ''fiftyTwoWeekLow'' ''5''"

definition no_net :: "nat \<Rightarrow> string \<Rightarrow> yahoo_response" where
  "no_net i symbol = YahooFails"

definition flat_net :: "nat \<Rightarrow> string \<Rightarrow> yahoo_response" where
  "flat_net i symbol = YahooPage flat_range_page"

definition quiet_net :: "nat \<Rightarrow> string \<Rightarrow> yahoo_response" where
  "quiet_net i symbol = YahooPage quiet_page"

section \<open>\<^verbatim>\<open>JSON.parse\<close> and the operations of the language that the code leans on\<close>

text \<open>
  \<^verbatim>\<open>JSON.parse\<close> on the grammar of JSON: white space, the three literals, numbers,
  strings with their escapes, arrays and objects. The recursion into arrays and objects
  is bounded by a fuel that the length of the text always covers, every step taking at
  least one character. A key given twice keeps its first place and its last value. An
  escape \<^verbatim>\<open>\uXXXX\<close> beyond the range of a byte is kept as a question mark.
\<close>

definition is_json_space :: "char \<Rightarrow> bool" where
  "is_json_space c = (c \<in> set [CHR '' '', CHR 0x09, CHR 0x0A, CHR 0x0D])"

definition hex_val :: "char \<Rightarrow> nat option" where
  "hex_val c =
     (if is_digit c then Some (of_char c - 48)
      else if c \<in> set ''abcdef'' then Some (of_char c - 87)
      else if c \<in> set ''ABCDEF'' then Some (of_char c - 55)
      else None)"

definition unicode_escape :: "string \<Rightarrow> char option" where
  "unicode_escape ds =
     (case map hex_val ds of
        [Some a, Some b, Some c, Some d] \<Rightarrow>
          (let n = ((a * 16 + b) * 16 + c) * 16 + d
           in Some (if n < 256 then char_of n else CHR ''?''))
      | _ \<Rightarrow> None)"

text \<open>The text after an opening quote, up to the closing one.\<close>

fun json_string :: "string \<Rightarrow> (string \<times> string) option" where
  "json_string [] = None"
| "json_string (c # r) =
     (if c = dq then Some ([], r)
      else if c = bs then
        (case r of
           [] \<Rightarrow> None
         | e # r' \<Rightarrow>
             if e = CHR ''u'' then
               (case unicode_escape (take 4 r') of
                  None \<Rightarrow> None
                | Some u \<Rightarrow> map_option (\<lambda>(s, rest). (u # s, rest)) (json_string (drop 4 r')))
             else
               (case map_of [(dq, dq), (bs, bs), (CHR ''/'', CHR ''/''), (CHR ''b'', CHR 0x08),
                             (CHR ''f'', CHR 0x0C), (CHR ''n'', CHR 0x0A), (CHR ''r'', CHR 0x0D),
                             (CHR ''t'', CHR 0x09)] e of
                  None \<Rightarrow> None
                | Some x \<Rightarrow> map_option (\<lambda>(s, rest). (x # s, rest)) (json_string r')))
      else if (of_char c :: nat) < 32 then None
      else map_option (\<lambda>(s, rest). (c # s, rest)) (json_string r))"

text \<open>
  A number: an optional minus, an integer part without a leading zero, an optional
  fraction and an optional exponent.
\<close>

definition json_number :: "string \<Rightarrow> (jsnum \<times> string) option" where
  "json_number s =
     (let neg = (s \<noteq> [] \<and> hd s = CHR ''-'');
          s1 = (if neg then tl s else s);
          ip = takeWhile is_digit s1;
          r1 = dropWhile is_digit s1;
          dot = (r1 \<noteq> [] \<and> hd r1 = CHR ''.'');
          fp = (if dot then takeWhile is_digit (tl r1) else []);
          r2 = (if dot then dropWhile is_digit (tl r1) else r1);
          ex = (r2 \<noteq> [] \<and> (hd r2 = CHR ''e'' \<or> hd r2 = CHR ''E''));
          r3 = (if ex \<and> tl r2 \<noteq> [] \<and> (hd (tl r2) = CHR ''-'' \<or> hd (tl r2) = CHR ''+'')
                then tl (tl r2) else tl r2);
          ed = (if ex then takeWhile is_digit r3 else []);
          rest = (if ex then dropWhile is_digit r3 else r2);
          x = scale10 (of_int (digits_val ip) + of_int (digits_val fp) / 10 ^ length fp)
                (if ex then exponent_of r2 else 0)
      in if ip = [] \<or> (hd ip = CHR ''0'' \<and> length ip \<noteq> 1) \<or> (dot \<and> fp = [])
            \<or> (ex \<and> ed = [])
         then None
         else Some (Fin (if neg then - x else x), rest))"

fun json_value :: "nat \<Rightarrow> string \<Rightarrow> (jsval \<times> string) option"
  and json_elements :: "nat \<Rightarrow> string \<Rightarrow> (jsval list \<times> string) option"
  and json_members :: "nat \<Rightarrow> string \<Rightarrow> ((string \<times> jsval) list \<times> string) option" where
  "json_value 0 s = None"
| "json_value (Suc n) s =
     (case dropWhile is_json_space s of
        [] \<Rightarrow> None
      | c # r \<Rightarrow>
          if c = CHR ''{'' then
            (case dropWhile is_json_space r of
               [] \<Rightarrow> None
             | c' # r' \<Rightarrow>
                 if c' = CHR ''}'' then Some (Obj [], r')
                 else map_option (\<lambda>(kvs, rest). (Obj kvs, rest)) (json_members n r))
          else if c = CHR ''['' then
            (case dropWhile is_json_space r of
               [] \<Rightarrow> None
             | c' # r' \<Rightarrow>
                 if c' = CHR '']'' then Some (Arr [], r')
                 else map_option (\<lambda>(vs, rest). (Arr vs, rest)) (json_elements n r))
          else if c = dq then map_option (\<lambda>(str, rest). (Str str, rest)) (json_string r)
          else if take 4 (c # r) = ''true'' then Some (Bool True, drop 4 (c # r))
          else if take 5 (c # r) = ''false'' then Some (Bool False, drop 5 (c # r))
          else if take 4 (c # r) = ''null'' then Some (Null, drop 4 (c # r))
          else map_option (\<lambda>(x, rest). (Num x, rest)) (json_number (c # r)))"
| "json_elements 0 s = None"
| "json_elements (Suc n) s =
     (case json_value n s of
        None \<Rightarrow> None
      | Some (v, r) \<Rightarrow>
          (case dropWhile is_json_space r of
             [] \<Rightarrow> None
           | c # r' \<Rightarrow>
               if c = CHR '']'' then Some ([v], r')
               else if c = CHR '','' then
                 map_option (\<lambda>(vs, rest). (v # vs, rest)) (json_elements n r')
               else None))"
| "json_members 0 s = None"
| "json_members (Suc n) s =
     (case dropWhile is_json_space s of
        [] \<Rightarrow> None
      | q # r0 \<Rightarrow>
          if q \<noteq> dq then None
          else
            (case json_string r0 of
               None \<Rightarrow> None
             | Some (k, r1) \<Rightarrow>
                 (case dropWhile is_json_space r1 of
                    [] \<Rightarrow> None
                  | colon # r2 \<Rightarrow>
                      if colon \<noteq> CHR '':'' then None
                      else
                        (case json_value n r2 of
                           None \<Rightarrow> None
                         | Some (v, r3) \<Rightarrow>
                             (case dropWhile is_json_space r3 of
                                [] \<Rightarrow> None
                              | c # r4 \<Rightarrow>
                                  if c = CHR ''}'' then Some ([(k, v)], r4)
                                  else if c = CHR '','' then
                                    map_option
                                      (\<lambda>(kvs, rest).
                                         ((k, case map_of kvs k of None \<Rightarrow> v | Some v' \<Rightarrow> v')
                                          # filter (\<lambda>kv. fst kv \<noteq> k) kvs, rest))
                                      (json_members n r4)
                                  else None)))))"

datatype parse_error = SyntaxError

definition JSON_parse :: "string \<Rightarrow> parse_error + jsval" where
  "JSON_parse text =
     (case json_value (Suc (length text)) text of
        None \<Rightarrow> Inl SyntaxError
      | Some (v, rest) \<Rightarrow> if list_all is_json_space rest then Inr v else Inl SyntaxError)"

text \<open>\<^verbatim>\<open>s.replace(/\\"/g, '"')\<close>: every backslash-quote pair becomes a quote.\<close>

fun unescape_quotes :: "string \<Rightarrow> string" where
  "unescape_quotes (a # b # r) =
     (if a = bs \<and> b = dq then dq # unescape_quotes r else a # unescape_quotes (b # r))"
| "unescape_quotes s = s"

text \<open>\<^verbatim>\<open>s.replace(/,/g, '')\<close>.\<close>

definition strip_commas :: "string \<Rightarrow> string" where
  "strip_commas s = filter (\<lambda>c. c \<noteq> CHR '','') s"

text \<open>\<^verbatim>\<open>String.prototype.toUpperCase\<close> on the letters of ASCII.\<close>

definition toUpperCase :: "string \<Rightarrow> string" where
  "toUpperCase s =
     map (\<lambda>c. if c \<in> set ''abcdefghijklmnopqrstuvwxyz'' then char_of (of_char c - 32 :: nat) else c) s"

text \<open>
  Reading a property, truthiness, and the two conversions of the language that the
  row builders reach only on values that are no numbers: how a number prints
  (\<^verbatim>\<open>Number.prototype.toString\<close>) and what number a value that is no number counts as in
  a comparison (\<^verbatim>\<open>ToNumber\<close>). The two are parameters of what follows; every theorem
  holds whatever they are.
\<close>

record language =
  number_to_string :: "jsnum \<Rightarrow> string"
  to_number :: "jsval \<Rightarrow> jsnum"

definition get_prop :: "jsval \<Rightarrow> string \<Rightarrow> jsval" where
  "get_prop v k =
     (case v of
        Obj kvs \<Rightarrow> (case map_of kvs k of None \<Rightarrow> Undefined | Some x \<Rightarrow> x)
      | _ \<Rightarrow> Undefined)"

fun falsy :: "jsval \<Rightarrow> bool" where
  "falsy Undefined = True"
| "falsy Null = True"
| "falsy (Bool b) = (\<not> b)"
| "falsy (Num n) = (\<not> truthy (Some n))"
| "falsy (Str s) = (s = [])"
| "falsy _ = False"

text \<open>
  \<^verbatim>\<open>v.toString()\<close>, which throws on \<^verbatim>\<open>null\<close> and \<^verbatim>\<open>undefined\<close>; inside an array these
  two print as nothing.
\<close>

fun join_with :: "string \<Rightarrow> string list \<Rightarrow> string" where
  "join_with sep [] = []"
| "join_with sep [x] = x"
| "join_with sep (x # xs) = x @ sep @ join_with sep xs"

fun text_of :: "language \<Rightarrow> jsval \<Rightarrow> string" where
  "text_of L (Str s) = s"
| "text_of L (Num n) = number_to_string L n"
| "text_of L (Bool b) = (if b then ''true'' else ''false'')"
| "text_of L (Obj kvs) = ''[object Object]''"
| "text_of L (Arr vs) = join_with '','' (map (text_of L) vs)"
| "text_of L Null = []"
| "text_of L Undefined = []"

definition toString :: "language \<Rightarrow> jsval \<Rightarrow> js_error + string" where
  "toString L v = (if v = Null \<or> v = Undefined then Inl TypeError else Inr (text_of L v))"

text \<open>\<^verbatim>\<open>a < b\<close> and \<^verbatim>\<open>a > b\<close> where one side is a number.\<close>

definition jlt :: "jsnum \<Rightarrow> jsnum \<Rightarrow> bool" where
  "jlt a b = (a \<noteq> NaN \<and> b \<noteq> NaN \<and> jle a b \<and> a \<noteq> b)"

definition as_number :: "language \<Rightarrow> jsval \<Rightarrow> jsnum" where
  "as_number L v = (case v of Num n \<Rightarrow> n | _ \<Rightarrow> to_number L v)"

section \<open>Quote pages: the summary snapshot and its row\<close>

text \<open>
  A quote page as \<^verbatim>\<open>extractSummaryData\<close> sees it: the text of the page, on which the
  regular expressions run, and the \<^verbatim>\<open>fin-streamer\<close> elements that the selector for the
  requested symbol finds in it, in document order, each with its \<^verbatim>\<open>data-field\<close> and
  \<^verbatim>\<open>data-value\<close> attributes (if present) and its trimmed text. How the HTML parser
  gets from the one to the other is not modelled.
\<close>

record fin_streamer =
  data_field :: "string option"
  data_value :: "string option"
  inner_text :: string

record page =
  html :: string
  streamers :: "fin_streamer list"

datatype page_response = PageFails | Page page

text \<open>
  \<^verbatim>\<open>parseFinancialValue\<close>, the helper inside \<open>extractSummaryData\<close>; \<open>None\<close> is \<^verbatim>\<open>null\<close>.
\<close>

definition nonempty :: "string option \<Rightarrow> bool" where
  "nonempty v = (v \<noteq> None \<and> v \<noteq> Some [])"

definition parseFinancialValue :: "string option \<Rightarrow> string \<Rightarrow> jsnum option" where
  "parseFinancialValue v txt =
     (if \<not> nonempty v \<and> txt = [] then None
      else
        (let numStr = (if nonempty v then the v else txt)
         in if numStr = ''--'' \<or> numStr = ''N/A'' then None
            else
              (let cleanStr = strip_commas numStr
               in if js_includes cleanStr ''T'' then Some (jmul (parseFloat cleanStr) (Fin (10 ^ 12)))
                  else if js_includes cleanStr ''B'' then Some (jmul (parseFloat cleanStr) (Fin (10 ^ 9)))
                  else if js_includes cleanStr ''M'' then Some (jmul (parseFloat cleanStr) (Fin (10 ^ 6)))
                  else if js_includes cleanStr ''K'' then Some (jmul (parseFloat cleanStr) (Fin (10 ^ 3)))
                  else Some (parseFloat cleanStr))))"

text \<open>\<^verbatim>\<open>parseRevenueValue\<close>, with the pattern \<^verbatim>\<open>/([\d.]+)([BKMGT]?)/\<close>.\<close>

definition revenuePattern :: "atom list" where
  "revenuePattern = [Plus (DigitOr ''.''), Opt (AnyOf ''BKMGT'')]"

definition multipliers :: "(string \<times> rat) list" where
  "multipliers = [(''K'', 10 ^ 3), (''M'', 10 ^ 6), (''B'', 10 ^ 9), (''T'', 10 ^ 12), (''G'', 10 ^ 9)]"

definition multiplier :: "string \<Rightarrow> jsnum" where
  "multiplier suffix = (case map_of multipliers suffix of Some m \<Rightarrow> Fin m | None \<Rightarrow> Fin 1)"

definition parseRevenueValue :: "string \<Rightarrow> jsnum option" where
  "parseRevenueValue txt =
     (if txt = [] \<or> txt = ''--'' \<or> txt = ''N/A'' then None
      else
        (case str_match revenuePattern txt of
           None \<Rightarrow> None
         | Some m \<Rightarrow> Some (jmul (parseFloat (m ! 0)) (multiplier (m ! 1)))))"

text \<open>
  The snapshot is an object from field names to wrappers \<^verbatim>\<open>{raw, fmt}\<close>. The mapping of
  \<^verbatim>\<open>data-field\<close> names is an object literal with seven properties, each name mapped to
  itself.
\<close>

definition fieldMapping :: "(string \<times> string) list" where
  "fieldMapping =
     [(''marketCap'', ''marketCap''), (''trailingPE'', ''trailingPE''),
      (''forwardPE'', ''forwardPE''), (''beta'', ''beta''),
      (''enterpriseValue'', ''enterpriseValue''),
      (''sharesOutstanding'', ''sharesOutstanding''), (''pegRatio'', ''pegRatio'')]"

text \<open>
  The read \<^verbatim>\<open>fieldMapping[dataField]\<close> also finds what every object inherits from
  \<^verbatim>\<open>Object.prototype\<close>: eleven built-in functions and, under \<^verbatim>\<open>__proto__\<close>, the prototype
  itself. All of them are truthy, and the assignment \<^verbatim>\<open>summaryData[fieldMapping[dataField]]\<close>
  turns such a value into a property key: the text of a built-in function, written here
  as Node.js prints it, and \<^verbatim>\<open>[object Object]\<close> for the prototype. \<open>mapped\<close> is the key
  that the read gives, \<open>None\<close> where it gives \<^verbatim>\<open>undefined\<close>.
\<close>

definition native_function :: "string \<Rightarrow> string" where
  "native_function name = ''function '' @ name @ ''() { [native code] }''"

definition inherited :: "(string \<times> string) list" where
  "inherited =
     [(''constructor'', native_function ''Object''),
      (''__defineGetter__'', native_function ''__defineGetter__''),
      (''__defineSetter__'', native_function ''__defineSetter__''),
      (''hasOwnProperty'', native_function ''hasOwnProperty''),
      (''__lookupGetter__'', native_function ''__lookupGetter__''),
      (''__lookupSetter__'', native_function ''__lookupSetter__''),
      (''isPrototypeOf'', native_function ''isPrototypeOf''),
      (''propertyIsEnumerable'', native_function ''propertyIsEnumerable''),
      (''toString'', native_function ''toString''),
      (''valueOf'', native_function ''valueOf''),
      (''toLocaleString'', native_function ''toLocaleString''),
      (''__proto__'', ''[object Object]'')]"

definition mapped :: "string \<Rightarrow> string option" where
  "mapped dataField =
     (case map_of fieldMapping dataField of
        Some name \<Rightarrow> Some name
      | None \<Rightarrow> map_of inherited dataField)"

definition wrapper :: "jsnum \<Rightarrow> string \<Rightarrow> jsval" where
  "wrapper r f = Obj [(''raw'', Num r), (''fmt'', Str f)]"

definition streamerStep :: "(string \<times> jsval) list \<Rightarrow> fin_streamer \<Rightarrow> (string \<times> jsval) list" where
  "streamerStep summaryData elem =
     (case data_field elem of
        None \<Rightarrow> summaryData
      | Some dataField \<Rightarrow>
          (case mapped dataField of
             None \<Rightarrow> summaryData
           | Some name \<Rightarrow>
               (case parseFinancialValue (data_value elem) (inner_text elem) of
                  None \<Rightarrow> summaryData
                | Some v \<Rightarrow>
                    set_property summaryData name
                      (wrapper v (if nonempty (data_value elem) then the (data_value elem)
                                  else inner_text elem)))))"

text \<open>
  The four patterns of \<^verbatim>\<open>additionalMetrics\<close>, each with the atoms that make up its
  group: \<^verbatim>\<open>/data-field="trailingEps"[^>]*data-value="([^"]*)"/\<close> and
  \<^verbatim>\<open>/enterpriseToEbitda[^>]*"(\d+\.?\d*)"/\<close>.
\<close>

definition dataValuePattern :: "string \<Rightarrow> atom list" where
  "dataValuePattern field =
     [Lit (''data-field='' @ [dq] @ field @ [dq]), Star (NoneOf ''>''),
      Lit (''data-value='' @ [dq]), Star (NoneOf [dq]), Lit [dq]]"

definition quotedNumberPattern :: "string \<Rightarrow> atom list" where
  "quotedNumberPattern field =
     [Lit field, Star (NoneOf ''>''), Lit [dq], Plus Digit, Opt (AnyOf ''.''), Star Digit, Lit [dq]]"

definition additionalMetrics :: "(string \<times> (string \<Rightarrow> string option)) list" where
  "additionalMetrics =
     [(''trailingEps'', \<lambda>h. map_option (\<lambda>m. m ! 3) (str_match (dataValuePattern ''trailingEps'') h)),
      (''forwardEps'', \<lambda>h. map_option (\<lambda>m. m ! 3) (str_match (dataValuePattern ''forwardEps'') h)),
      (''enterpriseToEbitda'',
         \<lambda>h. map_option (\<lambda>m. concat (take 3 (drop 3 m)))
                (str_match (quotedNumberPattern ''enterpriseToEbitda'') h)),
      (''enterpriseToRevenue'',
         \<lambda>h. map_option (\<lambda>m. concat (take 3 (drop 3 m)))
                (str_match (quotedNumberPattern ''enterpriseToRevenue'') h))]"

definition additionalStep ::
  "string \<Rightarrow> (string \<times> jsval) list \<Rightarrow> string \<times> (string \<Rightarrow> string option) \<Rightarrow> (string \<times> jsval) list" where
  "additionalStep h summaryData fp =
     (case snd fp h of
        None \<Rightarrow> summaryData
      | Some m1 \<Rightarrow>
          if m1 = [] then summaryData
          else
            (let v = parseFloat m1
             in if v = NaN then summaryData
                else set_property summaryData (fst fp) (wrapper v m1)))"

text \<open>
  The patterns of \<^verbatim>\<open>jsonFieldPatterns\<close>, \<^verbatim>\<open>/\\"field\\":\s*(\{[^}]+\})/\<close>, where the one
  for \<^verbatim>\<open>pegRatio\<close> has \<^verbatim>\<open>[^}]*\<close> instead; the group is the text of the last three atoms.
\<close>

definition jsonFieldPattern :: "string \<Rightarrow> bool \<Rightarrow> atom list" where
  "jsonFieldPattern field may_be_empty =
     [Lit (esc field @ '':''), Star Space, Lit ''{'',
      (if may_be_empty then Star (NoneOf ''}'') else Plus (NoneOf ''}'')), Lit ''}'']"

definition jsonFieldMatch :: "string \<Rightarrow> bool \<Rightarrow> string \<Rightarrow> string option" where
  "jsonFieldMatch field may_be_empty h =
     map_option (\<lambda>m. concat (drop 2 m)) (str_match (jsonFieldPattern field may_be_empty) h)"

definition jsonFieldPatterns :: "(string \<times> bool) list" where
  "jsonFieldPatterns =
     [(''enterpriseValue'', False), (''sharesOutstanding'', False), (''beta'', False),
      (''forwardPE'', False), (''trailingEps'', False), (''forwardEps'', False),
      (''pegRatio'', True), (''enterpriseToEbitda'', False), (''enterpriseToRevenue'', False)]"

text \<open>\<^verbatim>\<open>!summaryData[field]\<close>: the field is missing or holds a falsy value.\<close>

definition lacks :: "(string \<times> jsval) list \<Rightarrow> string \<Rightarrow> bool" where
  "lacks summaryData field =
     (case map_of summaryData field of None \<Rightarrow> True | Some v \<Rightarrow> falsy v)"

definition jsonStep :: "string \<Rightarrow> (string \<times> jsval) list \<Rightarrow> string \<times> bool \<Rightarrow> (string \<times> jsval) list" where
  "jsonStep h summaryData fp =
     (if lacks summaryData (fst fp) then
        (case jsonFieldMatch (fst fp) (snd fp) h of
           None \<Rightarrow> summaryData
         | Some jsonStr \<Rightarrow>
             (case JSON_parse (unescape_quotes jsonStr) of
                Inl e \<Rightarrow> summaryData
              | Inr fieldData \<Rightarrow> set_property summaryData (fst fp) fieldData))
      else summaryData)"

text \<open>The snapshot after the three passes, before the check of \<^verbatim>\<open>trailingPE\<close>.\<close>

definition collected :: "page \<Rightarrow> (string \<times> jsval) list" where
  "collected p =
     foldl (jsonStep (html p))
       (foldl (additionalStep (html p))
          (foldl streamerStep [] (streamers p))
          additionalMetrics)
       jsonFieldPatterns"

text \<open>
  The check of \<^verbatim>\<open>trailingPE\<close>: a value below 10 is taken for earnings per share, and
  the ratio is then looked up in the embedded JSON.
\<close>

definition trailingPECheck :: "language \<Rightarrow> string \<Rightarrow> (string \<times> jsval) list \<Rightarrow> (string \<times> jsval) list" where
  "trailingPECheck L h summaryData =
     (if \<not> lacks summaryData ''trailingPE''
         \<and> jlt (as_number L (get_prop (the (map_of summaryData ''trailingPE'')) ''raw'')) (Fin 10)
      then
        (case jsonFieldMatch ''trailingPE'' False h of
           None \<Rightarrow> summaryData
         | Some jsonStr \<Rightarrow>
             (case JSON_parse (unescape_quotes jsonStr) of
                Inl e \<Rightarrow> summaryData
              | Inr peData \<Rightarrow>
                  if jlt (Fin 10) (as_number L (get_prop peData ''raw''))
                  then assign summaryData ''trailingPE'' peData
                  else summaryData))
      else summaryData)"

text \<open>
  \<open>extractSummaryData\<close>: whatever is thrown on the way is caught and gives \<^verbatim>\<open>null\<close>.
\<close>

definition extractSummaryData :: "language \<Rightarrow> page_response \<Rightarrow> (string \<times> jsval) list option" where
  "extractSummaryData L response =
     (case response of
        PageFails \<Rightarrow> None
      | Page p \<Rightarrow>
          (let summaryData = trailingPECheck L (html p) (collected p)
           in if 0 < length (object_keys summaryData) then Some summaryData else None))"

text \<open>
  \<^verbatim>\<open>getValue\<close> of \<open>toStockSummaryRow\<close>, applied to \<^verbatim>\<open>summaryData.field\<close>; the pattern is
  \<^verbatim>\<open>/([\d.]+)([TKMBG]?)/\<close>.
\<close>

definition field_of :: "(string \<times> jsval) list \<Rightarrow> string \<Rightarrow> jsval" where
  "field_of obj k = (case map_of obj k of None \<Rightarrow> Undefined | Some v \<Rightarrow> v)"

fun is_number :: "jsval \<Rightarrow> bool" where
  "is_number (Num n) = True"
| "is_number _ = False"

definition getValue :: "language \<Rightarrow> jsval \<Rightarrow> js_error + jsval" where
  "getValue L obj =
     (if falsy obj then Inr Null
      else if is_number obj then Inr obj
      else if get_prop obj ''raw'' \<noteq> Undefined then Inr (get_prop obj ''raw'')
      else if get_prop obj ''fmt'' \<noteq> Undefined then
        (case toString L (get_prop obj ''fmt'') of
           Inl e \<Rightarrow> Inl e
         | Inr fmtStr \<Rightarrow>
             (case str_match revenuePattern fmtStr of
                Some m \<Rightarrow> Inr (Num (jmul (parseFloat (m ! 0)) (multiplier (m ! 1))))
              | None \<Rightarrow> Inr Null))
      else Inr Null)"

text \<open>\<^verbatim>\<open>a || b\<close> on values.\<close>

definition or_value :: "jsval \<Rightarrow> jsval \<Rightarrow> jsval" where
  "or_value a b = (if falsy a then b else a)"

definition summaryFields :: "(string \<times> string) list" where
  "summaryFields =
     [(''market_cap'', ''marketCap''), (''enterprise_value'', ''enterpriseValue''),
      (''shares_outstanding'', ''sharesOutstanding''), (''beta'', ''beta''),
      (''trailing_pe'', ''trailingPE''), (''forward_pe'', ''forwardPE''),
      (''trailing_eps'', ''trailingEps''), (''forward_eps'', ''forwardEps''),
      (''enterprise_to_ebitda'', ''enterpriseToEbitda''),
      (''enterprise_to_revenue'', ''enterpriseToRevenue''), (''peg_ratio'', ''pegRatio'')]"

text \<open>
  The fields of the row in the order of the object literal; the first exception thrown
  by a \<^verbatim>\<open>getValue\<close> ends the construction.
\<close>

fun collect_fields ::
  "(string \<times> (js_error + jsval)) list \<Rightarrow> js_error + (string \<times> jsval) list" where
  "collect_fields [] = Inr []"
| "collect_fields ((k, Inl e) # rest) = Inl e"
| "collect_fields ((k, Inr v) # rest) =
     (case collect_fields rest of Inl e \<Rightarrow> Inl e | Inr kvs \<Rightarrow> Inr ((k, v) # kvs))"

definition toStockSummaryRow ::
  "language \<Rightarrow> string \<Rightarrow> string \<Rightarrow> (string \<times> jsval) list \<Rightarrow> js_error + (string \<times> jsval) list" where
  "toStockSummaryRow L currentDate symbol summaryData =
     collect_fields
       ([(''symbol'', Inr (Str (toUpperCase symbol)))]
        @ map (\<lambda>(name, field). (name, getValue L (field_of summaryData field))) summaryFields
        @ [(''currency'', Inr (or_value (field_of summaryData ''currency'') (Str ''USD''))),
           (''report_date'', Inr (Str currentDate))])"

text \<open>
  \<^verbatim>\<open>fetchYahooSummary\<close> returns the row together with its rendering as markdown. Of the
  rendering the model keeps whether it throws: \<^verbatim>\<open>formatRatio\<close> calls \<^verbatim>\<open>num.toFixed(2)\<close>
  on every value that is neither \<^verbatim>\<open>null\<close> nor \<^verbatim>\<open>undefined\<close>, which is a TypeError on a
  value that is no number; \<^verbatim>\<open>formatNumber\<close>, used for the other three numeric fields,
  compares, divides and calls \<^verbatim>\<open>toLocaleString\<close>, which no value of the row refuses.
\<close>

definition formatRatio_throws :: "jsval \<Rightarrow> bool" where
  "formatRatio_throws num = (num \<noteq> Null \<and> num \<noteq> Undefined \<and> \<not> is_number num)"

definition ratioFields :: "string list" where
  "ratioFields =
     [''beta'', ''trailing_pe'', ''forward_pe'', ''peg_ratio'', ''trailing_eps'', ''forward_eps'',
      ''enterprise_to_ebitda'', ''enterprise_to_revenue'']"

definition summaryAsMarkdown_throws :: "(string \<times> jsval) list \<Rightarrow> bool" where
  "summaryAsMarkdown_throws row = list_ex (\<lambda>name. formatRatio_throws (field_of row name)) ratioFields"

definition fetchYahooSummary ::
  "language \<Rightarrow> string \<Rightarrow> string \<Rightarrow> page_response \<Rightarrow> js_error + (string \<times> jsval) list" where
  "fetchYahooSummary L currentDate symbol response =
     (case extractSummaryData L response of
        None \<Rightarrow> Inl (Error ''Could not extract financial summary data from Yahoo Finance page'')
      | Some summaryData \<Rightarrow>
          (case toStockSummaryRow L currentDate symbol summaryData of
             Inl error \<Rightarrow> Inl error
           | Inr row \<Rightarrow> if summaryAsMarkdown_throws row then Inl TypeError else Inr row))"
section \<open>Quote pages: the company profile and the pricing row\<close>

text \<open>
  The pattern that finds the object with the profile,
  \<^verbatim>\<open>/(\{[^{}]*\\"address1\\":\\"[^\\"].*?\\"fullTimeEmployees\\":\d+[^{}]*\})/\<close>, whose group
  is the whole match, and the patterns of the fields, \<^verbatim>\<open>/\\"city\\":\\"([^\\"]*)\\"/\<close>
  and \<^verbatim>\<open>/\\"fullTimeEmployees\\":(\d+)/\<close>.
\<close>

definition profilePattern :: "atom list" where
  "profilePattern =
     [Lit ''{'', Star (NoneOf ''{}''), Lit (esc ''address1'' @ '':'' @ [bs, dq]),
      One (NoneOf [bs, dq]), LazyStar Dot, Lit (esc ''fullTimeEmployees'' @ '':''),
      Plus Digit, Star (NoneOf ''{}''), Lit ''}'']"

definition textFieldPattern :: "string \<Rightarrow> atom list" where
  "textFieldPattern field =
     [Lit (esc field @ '':'' @ [bs, dq]), Star (NoneOf [bs, dq]), Lit [bs, dq]]"

definition numberFieldPattern :: "string \<Rightarrow> atom list" where
  "numberFieldPattern field = [Lit (esc field @ '':''), Plus Digit]"

definition profileTextFields :: "string list" where
  "profileTextFields =
     [''address1'', ''city'', ''state'', ''zip'', ''country'', ''phone'', ''website'',
      ''industry'', ''sector'', ''longBusinessSummary'']"

definition profileStep :: "string \<Rightarrow> (string \<times> jsval) list \<Rightarrow> string \<Rightarrow> (string \<times> jsval) list" where
  "profileStep rawJson result field =
     (case str_match (textFieldPattern field) rawJson of
        None \<Rightarrow> result
      | Some m \<Rightarrow> set_property result field (Str (m ! 1)))"

definition employeesStep :: "string \<Rightarrow> (string \<times> jsval) list \<Rightarrow> (string \<times> jsval) list" where
  "employeesStep rawJson result =
     (case str_match (numberFieldPattern ''fullTimeEmployees'') rawJson of
        None \<Rightarrow> result
      | Some m \<Rightarrow> set_property result ''fullTimeEmployees'' (Num (parseInt (m ! 1))))"

definition profileFields :: "string \<Rightarrow> (string \<times> jsval) list" where
  "profileFields rawJson =
     employeesStep rawJson (foldl (profileStep rawJson) [] profileTextFields)"

datatype text_response = TextFails | Text string

text \<open>
  \<open>extractAssetProfile\<close> in two steps: \<open>matchedFields\<close> is the object \<^verbatim>\<open>result\<close> as it
  stands after the loop over the field patterns, \<open>None\<close> where the function has returned
  before; then the test on the number of its keys. Whatever is thrown on the way is
  caught and gives \<^verbatim>\<open>null\<close>.
\<close>

definition matchedFields :: "text_response \<Rightarrow> (string \<times> jsval) list option" where
  "matchedFields response =
     (case response of
        TextFails \<Rightarrow> None
      | Text h \<Rightarrow>
          if \<not> js_includes h ''address1'' \<or> \<not> js_includes h ''fullTimeEmployees'' then None
          else
            (case str_match profilePattern h of
               None \<Rightarrow> None
             | Some jsonMatch \<Rightarrow> Some (profileFields (concat jsonMatch))))"

definition extractAssetProfile :: "text_response \<Rightarrow> (string \<times> jsval) list option" where
  "extractAssetProfile response =
     (case matchedFields response of
        None \<Rightarrow> None
      | Some result \<Rightarrow> if 5 < length (object_keys result) then Some result else None)"

definition toStockProfileRow ::
  "string \<Rightarrow> string \<Rightarrow> (string \<times> jsval) list \<Rightarrow> (string \<times> jsval) list" where
  "toStockProfileRow currentDate symbol assetProfile =
     [(''symbol'', Str (toUpperCase symbol)),
      (''address'', or_value (field_of assetProfile ''address1'') Null),
      (''city'', or_value (field_of assetProfile ''city'') Null),
      (''country'', or_value (field_of assetProfile ''country'') Null),
      (''phone'', or_value (field_of assetProfile ''phone'') Null),
      (''zip'', or_value (field_of assetProfile ''zip'') Null),
      (''industry'', or_value (field_of assetProfile ''industry'') (Str ''Information not available'')),
      (''sector'', or_value (field_of assetProfile ''sector'') (Str ''Information not available'')),
      (''long_business_summary'',
         or_value (field_of assetProfile ''longBusinessSummary'')
           (Str ''Company information extracted from page metadata'')),
      (''full_time_employees'', or_value (field_of assetProfile ''fullTimeEmployees'') Null),
      (''report_date'', Str currentDate)]"

text \<open>
  \<^verbatim>\<open>fetchYahooProfile\<close> returns the row together with its rendering as markdown, which
  joins the texts of the row and calls \<^verbatim>\<open>toLocaleString\<close> on the number of employees:
  nothing in it throws, and the model keeps the row.
\<close>

definition fetchYahooProfile ::
  "string \<Rightarrow> string \<Rightarrow> text_response \<Rightarrow> js_error + (string \<times> jsval) list" where
  "fetchYahooProfile currentDate symbol response =
     (case extractAssetProfile response of
        None \<Rightarrow> Inl (Error ''Could not extract company profile data from Yahoo Finance page'')
      | Some profile \<Rightarrow> Inr (toStockProfileRow currentDate symbol profile))"

subsection \<open>Pricing\<close>

definition pricingFields :: "string list" where
  "pricingFields =
     [''currentPrice'', ''previousClose'', ''open'', ''dayLow'', ''dayHigh'',
      ''regularMarketPrice'', ''regularMarketChange'', ''regularMarketChangePercent'',
      ''preMarketPrice'', ''preMarketChange'', ''preMarketChangePercent'',
      ''postMarketPrice'', ''postMarketChange'', ''postMarketChangePercent'',
      ''volume'', ''averageVolume'', ''averageDailyVolume10Day'',
      ''fiftyTwoWeekLow'', ''fiftyTwoWeekHigh'', ''fiftyDayAverage'', ''twoHundredDayAverage'',
      ''bid'', ''ask'', ''bidSize'', ''askSize'']"

text \<open>\<^verbatim>\<open>/\\"marketState\\":\s*\\"([^"]+)\\"/\<close>.\<close>

definition marketStatePattern :: "atom list" where
  "marketStatePattern =
     [Lit (esc ''marketState'' @ '':''), Star Space, Lit [bs, dq], Plus (NoneOf [dq]),
      Lit [bs, dq]]"

definition pricingStep :: "string \<Rightarrow> (string \<times> jsval) list \<Rightarrow> string \<Rightarrow> (string \<times> jsval) list" where
  "pricingStep h pricingData field =
     (case jsonFieldMatch field False h of
        None \<Rightarrow> pricingData
      | Some jsonStr \<Rightarrow>
          (case JSON_parse (unescape_quotes jsonStr) of
             Inl e \<Rightarrow> pricingData
           | Inr fieldData \<Rightarrow> set_property pricingData field fieldData))"

definition marketStateStep :: "string \<Rightarrow> (string \<times> jsval) list \<Rightarrow> (string \<times> jsval) list" where
  "marketStateStep h pricingData =
     (case str_match marketStatePattern h of
        None \<Rightarrow> pricingData
      | Some m \<Rightarrow> set_property pricingData ''marketState'' (Str (m ! 3)))"

definition extractPricingData :: "text_response \<Rightarrow> (string \<times> jsval) list option" where
  "extractPricingData response =
     (case response of
        TextFails \<Rightarrow> None
      | Text h \<Rightarrow>
          (let pricingData = marketStateStep h (foldl (pricingStep h) [] pricingFields)
           in if 0 < length (object_keys pricingData) then Some pricingData else None))"

text \<open>\<^verbatim>\<open>getValue\<close> of \<open>toStockPricingRow\<close>, which reads \<^verbatim>\<open>raw\<close> only.\<close>

definition getRaw :: "jsval \<Rightarrow> jsval" where
  "getRaw obj =
     (if falsy obj then Null
      else if is_number obj then obj
      else if get_prop obj ''raw'' \<noteq> Undefined then get_prop obj ''raw''
      else Null)"

definition pricingRowFields :: "(string \<times> string) list" where
  "pricingRowFields =
     [(''previous_close'', ''previousClose''), (''open_price'', ''open''),
      (''day_low'', ''dayLow''), (''day_high'', ''dayHigh''),
      (''regular_market_change'', ''regularMarketChange''),
      (''regular_market_change_percent'', ''regularMarketChangePercent''),
      (''pre_market_price'', ''preMarketPrice''), (''pre_market_change'', ''preMarketChange''),
      (''pre_market_change_percent'', ''preMarketChangePercent''),
      (''post_market_price'', ''postMarketPrice''), (''post_market_change'', ''postMarketChange''),
      (''post_market_change_percent'', ''postMarketChangePercent''),
      (''volume'', ''volume''), (''average_volume'', ''averageVolume''),
      (''average_volume_10day'', ''averageDailyVolume10Day''),
      (''fifty_two_week_low'', ''fiftyTwoWeekLow''), (''fifty_two_week_high'', ''fiftyTwoWeekHigh''),
      (''fifty_day_average'', ''fiftyDayAverage''),
      (''two_hundred_day_average'', ''twoHundredDayAverage''),
      (''bid_price'', ''bid''), (''ask_price'', ''ask''), (''bid_size'', ''bidSize''),
      (''ask_size'', ''askSize'')]"

definition toStockPricingRow ::
  "string \<Rightarrow> string \<Rightarrow> (string \<times> jsval) list \<Rightarrow> (string \<times> jsval) list" where
  "toStockPricingRow currentDate symbol pricingData =
     [(''symbol'', Str (toUpperCase symbol)),
      (''current_price'',
         or_value (getRaw (field_of pricingData ''currentPrice''))
                  (getRaw (field_of pricingData ''regularMarketPrice'')))]
     @ map (\<lambda>(name, field). (name, getRaw (field_of pricingData field))) pricingRowFields
     @ [(''market_state'', or_value (field_of pricingData ''marketState'') (Str ''UNKNOWN'')),
        (''currency'', Str ''USD''),
        (''report_date'', Str currentDate)]"

subsection \<open>Example pages\<close>

text \<open>
  The fragment of the specification's scenario, as it stands in a page:
  \<^verbatim>\<open>\"marketCap\":{\"raw\":3000000000000,\"fmt\":\"3.00T\"}\<close>; a page that has nothing
  else, and a page that also has the \<^verbatim>\<open>fin-streamer\<close> element of the market
  capitalisation. A page whose element for \<^verbatim>\<open>trailingPE\<close> shows 6.5 while the embedded
  JSON has 28.4. Two profile objects: one with three fields, and one with six fields
  but no industry.
\<close>

definition text_field :: "string \<Rightarrow> string \<Rightarrow> string" where
  "text_field key v = esc key @ '':'' @ esc v"

definition wrapped_field :: "string \<Rightarrow> string \<Rightarrow> string \<Rightarrow> string" where
  "wrapped_field key r f = esc key @ '':{'' @ esc ''raw'' @ '':'' @ r @ '','' @ esc ''fmt'' @ '':'' @ esc f @ ''}''"

definition marketCap_fragment :: string where
  "marketCap_fragment = wrapped_field ''marketCap'' ''3000000000000'' ''3.00T''"

definition fragment_page :: page where
  "fragment_page = \<lparr> html = marketCap_fragment, streamers = [] \<rparr>"

definition streamer_page :: page where
  "streamer_page =
     \<lparr> html = marketCap_fragment,
        streamers = [\<lparr> data_field = Some ''marketCap'', data_value = Some ''3000000000000'',
                       inner_text = ''3.00T'' \<rparr>] \<rparr>"


definition sparse_profile_page :: string where
  "sparse_profile_page =
     ''{'' @ text_field ''address1'' ''A St'' @ '','' @ text_field ''city'' ''Ayr''
     @ '','' @ esc ''fullTimeEmployees'' @ '':100}''"

definition profile_page :: string where
  "profile_page =
     ''{'' @ text_field ''address1'' ''A St'' @ '','' @ text_field ''city'' ''Ayr''
     @ '','' @ text_field ''state'' ''IL'' @ '','' @ text_field ''zip'' ''1''
     @ '','' @ text_field ''phone'' ''5''
     @ '','' @ esc ''fullTimeEmployees'' @ '':100}''"

text \<open>Some way of printing numbers and of counting other values as numbers.\<close>

definition some_language :: language where
  "some_language = \<lparr> number_to_string = (\<lambda>n. ''0''), to_number = (\<lambda>v. NaN) \<rparr>"

subsection \<open>Formatted numbers\<close>

text \<open>
  A formatted number: digits, with or without a fraction, and the rational it denotes;
  the unit suffixes, the empty one among them. A page whose market capitalisation is
  shown with the suffix \<^verbatim>\<open>G\<close>.
\<close>

definition decimal :: "string \<Rightarrow> string \<Rightarrow> string" where
  "decimal ip fp = ip @ (if fp = [] then [] else CHR ''.'' # fp)"

definition decimal_value :: "string \<Rightarrow> string \<Rightarrow> rat" where
  "decimal_value ip fp = of_int (digits_val ip) + of_int (digits_val fp) / 10 ^ length fp"

definition digits :: "string \<Rightarrow> bool" where
  "digits s = list_all is_digit s"

definition suffixes :: "string list" where
  "suffixes = [''K'', ''M'', ''B'', ''T'', ''G'', []]"

definition giga_page :: page where
  "giga_page =
     \<lparr> html = [],
        streamers = [\<lparr> data_field = Some ''marketCap'', data_value = Some ''1.5G'',
                       inner_text = ''1.5G'' \<rparr>] \<rparr>"

section \<open>Theorems\<close>



subsection \<open>The batch loop\<close>

lemma batchWorker_fulfils: "batchWorker e entry = Inr (worker_out e entry)"
  by (cases entry) (simp add: worker_out_def batchWorker_def Let_def split: sum.splits)

lemma promise_all_workers: "promise_all (map (batchWorker e) b) = Inr (map (worker_out e) b)"
  by (induction b) (simp_all add: batchWorker_fulfils)

lemma groups_of_Nil [simp]: "groups_of c [] = []"
  by (simp add: groups_of.simps)

lemma groups_of_eq_Nil: "0 < c \<Longrightarrow> groups_of c xs = [] \<longleftrightarrow> xs = []"
  by (subst groups_of.simps) simp

lemma length_groups_of: "0 < c \<Longrightarrow> length (groups_of c xs) = (length xs + c - 1) div c"
proof (induction c xs rule: groups_of.induct)
  case (1 c xs)
  show ?case
  proof (cases "xs = []")
    case True
    with "1.prems" show ?thesis by simp
  next
    case False
    then have len: "0 < length xs" by simp
    have "length (groups_of c xs) = Suc (length (groups_of c (drop c xs)))"
      using False "1.prems" by (subst groups_of.simps) simp
    also have "\<dots> = Suc ((length xs - c + c - 1) div c)"
      using "1.IH" False "1.prems" by simp
    also have "\<dots> = (length xs + c - 1) div c"
    proof (cases "c \<le> length xs")
      case True
      have "length xs + c - 1 = (length xs - 1) + c" using len by arith
      then have "(length xs + c - 1) div c = ((length xs - 1) + c) div c"
        by (rule arg_cong)
      also have "\<dots> = (length xs - 1) div c + 1"
        using "1.prems" by (intro div_add_self2) simp
      finally have "(length xs + c - 1) div c = (length xs - 1) div c + 1" .
      moreover have "length xs - c + c - 1 = length xs - 1" using True by arith
      ultimately show ?thesis by simp
    next
      case False
      then have a: "length xs - c + c - 1 = c - 1" by arith
      have "c * 1 \<le> length xs + c - 1" using len by arith
      moreover have "length xs + c - 1 < c * Suc 1" using False len by arith
      ultimately have "(length xs + c - 1) div c = 1"
        by (rule div_nat_eqI)
      then show ?thesis using a "1.prems" by simp
    qed
    finally show ?thesis .
  qed
qed


lemma scheduled_Cons:
  "scheduled e (g # gs) =
     group_requests e g @ [Settled (map fst g)]
     @ (if gs = [] then [] else [Sleep delay]) @ scheduled e gs"
  by (cases gs) simp_all

lemma zip_worker_out:
  "zip (map fst b) (map (\<lambda>x. snd (w x)) b) = map (\<lambda>en. (fst en, snd (w en))) b"
  by (induction b) simp_all

lemma groups_of_step:
  "0 < c \<Longrightarrow> i < length xs \<Longrightarrow>
   groups_of c (drop i xs) = take c (drop i xs) # groups_of c (drop (i + c) xs)"
  by (subst groups_of.simps) (simp add: add.commute)

lemma batchLoop_closed:
  "batchLoop e entries i st =
     Inr \<lparr> results = foldl store (results st)
                        (map (\<lambda>en. (fst en, snd (worker_out e en))) (drop i entries)),
           trace = trace st @ scheduled e (groups_of maxConcurrent (drop i entries)) \<rparr>"
proof (induction "length entries - i" arbitrary: i st rule: less_induct)
  case less
  show ?case
  proof (cases "i < length entries")
    case False
    then show ?thesis by (subst batchLoop.simps) simp
  next
    case True
    let ?c = maxConcurrent
    let ?batch = "take ?c (drop i entries)"
    let ?f = "\<lambda>en. (fst en, snd (worker_out e en))"
    let ?st1 = "\<lparr> results = foldl store (results st) (map ?f ?batch),
                  trace = trace st @ group_requests e ?batch
                          @ [Settled (map fst ?batch)] \<rparr>"
    let ?st2 = "if i + ?c < length entries then ?st1 \<lparr> trace := trace ?st1 @ [Sleep delay] \<rparr>
                else ?st1"
    have cpos: "0 < ?c" by (simp add: maxConcurrent_def)
    have step: "batchLoop e entries i st = batchLoop e entries (i + ?c) ?st2"
      using True
      by (subst batchLoop.simps)
         (simp add: promise_all_workers zip_worker_out Let_def comp_def group_requests_def
            case_prod_unfold)
    have smaller: "length entries - (i + ?c) < length entries - i"
      using True cpos by arith
    have split: "drop i entries = ?batch @ drop (i + ?c) entries"
      by (metis append_take_drop_id drop_drop add.commute)
    have res: "foldl store (results ?st2) (map ?f (drop (i + ?c) entries))
               = foldl store (results st) (map ?f (drop i entries))"
      by (subst (2) split) simp
    have last: "groups_of ?c (drop (i + ?c) entries) = [] \<longleftrightarrow> \<not> i + ?c < length entries"
      using cpos by (auto simp: groups_of_eq_Nil)
    have tr: "trace ?st2 @ scheduled e (groups_of ?c (drop (i + ?c) entries))
              = trace st @ scheduled e (groups_of ?c (drop i entries))"
      using last by (simp add: groups_of_step [OF cpos True] scheduled_Cons)
    show ?thesis
      unfolding step less.hyps [OF smaller] res tr ..
  qed
qed

lemma map_of_assign: "map_of (assign r k v) = (map_of r)(k \<mapsto> v)"
  by (induction r) (auto simp: fun_eq_iff)

lemma map_of_foldl_store:
  "distinct (map fst kvs) \<Longrightarrow> (k, vo) \<in> set kvs \<Longrightarrow>
   map_of (foldl store r kvs) k = (case vo of None \<Rightarrow> map_of r k | Some v \<Rightarrow> Some v)"
proof (induction kvs arbitrary: r)
  case Nil
  then show ?case by simp
next
  case (Cons kv kvs)
  have other: "\<And>r'. k \<notin> fst ` set kvs \<Longrightarrow> map_of (foldl store r' kvs) k = map_of r' k"
  proof -
    fix r' show "k \<notin> fst ` set kvs \<Longrightarrow> map_of (foldl store r' kvs) k = map_of r' k"
      by (induction kvs arbitrary: r')
         (auto simp: store_def map_of_assign split: option.splits)
  qed
  show ?case
  proof (cases "(k, vo) = kv")
    case True
    then have "k \<notin> fst ` set kvs" using Cons.prems(1) by force
    then have "map_of (foldl store r (kv # kvs)) k = map_of (store r kv) k"
      by (simp add: other)
    also have "\<dots> = (case vo of None \<Rightarrow> map_of r k | Some v \<Rightarrow> Some v)"
      using True by (auto simp: store_def map_of_assign split: option.splits)
    finally show ?thesis .
  next
    case False
    then have mem: "(k, vo) \<in> set kvs" using Cons.prems(2) by simp
    then have "k \<noteq> fst kv" using Cons.prems(1) by (auto simp: image_iff)
    then have "map_of (store r kv) k = map_of r k"
      by (cases kv) (auto simp: store_def map_of_assign split: option.splits)
    then show ?thesis using Cons.IH [of "store r kv"] Cons.prems(1) mem
      by (simp split: option.splits)
  qed
qed


lemma concat_groups_of: "0 < c \<Longrightarrow> concat (groups_of c xs) = xs"
proof (induction c xs rule: groups_of.induct)
  case (1 c xs)
  show ?case
  proof (cases "xs = []")
    case True then show ?thesis by simp
  next
    case False
    then show ?thesis using 1 by (subst groups_of.simps) simp
  qed
qed

lemma groups_of_sizes: "0 < c \<Longrightarrow> g \<in> set (groups_of c xs) \<Longrightarrow> 0 < length g \<and> length g \<le> c"
proof (induction c xs rule: groups_of.induct)
  case (1 c xs)
  show ?case
  proof (cases "xs = []")
    case True then show ?thesis using "1.prems" by simp
  next
    case False
    then have "g = take c xs \<or> g \<in> set (groups_of c (drop c xs))"
      using "1.prems" by (subst (asm) groups_of.simps) auto
    then show ?thesis using 1 False by auto
  qed
qed

lemma ceil_div5: "(n + 4) div 5 = nat \<lceil>real n / 5\<rceil>"
proof -
  have "\<lceil>real n / 5\<rceil> = \<lceil>of_int (int n) / (of_int 5 :: real)\<rceil>" by simp
  also have "\<dots> = - (- int n div 5)" by (rule ceiling_divide_eq_div)
  also have "\<dots> = (int n + 4) div 5" by presburger
  finally have "nat \<lceil>real n / 5\<rceil> = nat ((int n + 4) div 5)" by simp
  also have "\<dots> = (n + 4) div 5" by (simp add: nat_div_distrib nat_add_distrib)
  finally show ?thesis by simp
qed

lemma worker_events:
  "set (fst (worker_out e entry)) \<subseteq> {RequestYahoo (fallbackSymbol (fst entry))}"
  by (cases entry) (auto simp: worker_out_def batchWorker_def Let_def split: sum.splits if_splits)

lemma set_group_requests:
  "set (group_requests e g) =
     (\<lambda>en. RequestFred (snd en)) ` set g \<union> (\<Union>en \<in> set g. set (fst (worker_out e en)))"
  by (simp add: group_requests_def)

lemma count_sleep_items: "count_list (group_requests e g) (Sleep d) = 0"
proof -
  have "Sleep d \<notin> set (fst (worker_out e en))" for en
    using worker_events [of e en] by auto
  then have "Sleep d \<notin> set (group_requests e g)"
    by (auto simp: set_group_requests)
  then show ?thesis by (simp add: count_list_0_iff)
qed

lemma count_sleep_scheduled: "count_list (scheduled e gs) (Sleep delay) = length gs - 1"
proof (induction gs)
  case Nil then show ?case by simp
next
  case (Cons g gs)
  then show ?case by (cases gs) (simp_all add: count_sleep_items)
qed

lemma scheduled_Nil_iff: "scheduled e gs = [] \<longleftrightarrow> gs = []"
  by (cases gs) (simp_all add: scheduled_Cons)

lemma last_scheduled: "gs \<noteq> [] \<Longrightarrow> last (scheduled e gs) = Settled (map fst (last gs))"
  by (induction e gs rule: scheduled.induct) (simp_all add: scheduled_Nil_iff)

lemma runIndicators_closed:
  "runIndicators e entries =
     (scheduled e (groups_of maxConcurrent entries),
      let r = foldl store [] (map (\<lambda>en. (fst en, snd (worker_out e en))) entries)
      in if 0 < length r then Some r else None)"
  by (simp add: runIndicators_def batchLoop_closed Let_def)

lemma lookup_run:
  assumes "distinct (map fst entries)" "entry \<in> set entries"
  shows "lookup_result (snd (runIndicators e entries)) (fst entry) = snd (worker_out e entry)"
proof -
  let ?kvs = "map (\<lambda>en. (fst en, snd (worker_out e en))) entries"
  have d: "distinct (map fst ?kvs)" using assms(1) by (simp add: comp_def)
  have m: "(fst entry, snd (worker_out e entry)) \<in> set ?kvs" using assms(2) by auto
  have "map_of (foldl store [] ?kvs) (fst entry) = snd (worker_out e entry)"
    using map_of_foldl_store [OF d m, of "[]"] by (simp split: option.splits)
  then show ?thesis
    by (auto simp: runIndicators_closed lookup_result_def Let_def)
qed

lemma worker_out_local: "same_answers e e' entry \<Longrightarrow> worker_out e' entry = worker_out e entry"
  by (cases entry)
     (simp add: same_answers_def worker_out_def batchWorker_def Let_def split: sum.splits)

lemma requests_scheduled:
  "entry \<in> set (concat gs) \<Longrightarrow> RequestFred (snd entry) \<in> set (scheduled e gs)"
proof (induction gs)
  case Nil then show ?case by simp
next
  case (Cons g gs)
  show ?case
  proof (cases "entry \<in> set g")
    case True
    then have "RequestFred (snd entry) \<in> set (group_requests e g)"
      by (auto simp: set_group_requests)
    then show ?thesis by (simp add: scheduled_Cons)
  next
    case False
    then show ?thesis using Cons by (simp add: scheduled_Cons)
  qed
qed

lemma fredAttempt_throws:
  "(\<exists>err. fredAttempt r sid = Inl err) = (r = RequestFails \<or> r = Malformed)"
  by (auto simp: fredAttempt_def split: fred_response.splits option.splits)








lemma worker_out_answered:
  "fredAttempt (fred e (snd en)) (snd en) = Inr stored \<Longrightarrow> worker_out e en = ([], stored)"
  by (cases en) (simp add: worker_out_def batchWorker_def)


text \<open>
  C3. For every list of \<open>n\<close> entries, the batch loop of \<open>extractEconomicData\<close>, whose
  concurrency is 5, runs \<open>\<lceil>n / 5\<rceil>\<close> groups one after the other: the groups are the
  consecutive runs of at most five entries, every request of a group is made before
  the group has settled and before the next group starts, the pause stands between
  two groups only (one fewer pauses than groups, and the last event is the settling of
  the last group). No worker rejects, so every entry's request is made whatever happens
  to the others, and what is stored for a key is what its own worker produced: it is the
  same in every world that answers this entry's requests alike.
\<close>

theorem batch_schedule:
  "length (groups_of maxConcurrent entries) = nat \<lceil>real (length entries) / 5\<rceil>
   \<and> concat (groups_of maxConcurrent entries) = entries
   \<and> (\<forall>g \<in> set (groups_of maxConcurrent entries). 0 < length g \<and> length g \<le> 5)
   \<and> fst (runIndicators e entries) = scheduled e (groups_of maxConcurrent entries)
   \<and> count_list (fst (runIndicators e entries)) (Sleep delay)
       = length (groups_of maxConcurrent entries) - 1
   \<and> (entries \<noteq> [] \<longrightarrow>
        last (fst (runIndicators e entries))
        = Settled (map fst (last (groups_of maxConcurrent entries))))
   \<and> (\<forall>entry \<in> set entries.
         batchWorker e entry = Inr (worker_out e entry)
         \<and> RequestFred (snd entry) \<in> set (fst (runIndicators e entries)))
   \<and> (distinct (map fst entries) \<longrightarrow>
        (\<forall>entry \<in> set entries.
           lookup_result (snd (runIndicators e entries)) (fst entry) = snd (worker_out e entry)
           \<and> (\<forall>e'. same_answers e e' entry \<longrightarrow>
                  lookup_result (snd (runIndicators e' entries)) (fst entry)
                  = lookup_result (snd (runIndicators e entries)) (fst entry))))"
proof -
  let ?gs = "groups_of maxConcurrent entries"
  have c5: "maxConcurrent = 5" and cpos: "0 < maxConcurrent" by (simp_all add: maxConcurrent_def)
  have n: "length ?gs = nat \<lceil>real (length entries) / 5\<rceil>"
    using length_groups_of [OF cpos, of entries] by (simp add: c5 ceil_div5 [symmetric])
  have cat: "concat ?gs = entries" by (rule concat_groups_of [OF cpos])
  have sz: "\<forall>g \<in> set ?gs. 0 < length g \<and> length g \<le> 5"
    using groups_of_sizes [OF cpos] c5 by metis
  have tr: "fst (runIndicators e entries) = scheduled e ?gs"
    by (simp add: runIndicators_closed)
  have sl: "count_list (fst (runIndicators e entries)) (Sleep delay) = length ?gs - 1"
    by (simp only: tr count_sleep_scheduled)
  have la: "entries \<noteq> [] \<longrightarrow> last (fst (runIndicators e entries)) = Settled (map fst (last ?gs))"
    using cpos by (simp only: tr) (simp add: last_scheduled groups_of_eq_Nil)
  have rq: "\<forall>entry \<in> set entries. batchWorker e entry = Inr (worker_out e entry)
              \<and> RequestFred (snd entry) \<in> set (fst (runIndicators e entries))"
    using requests_scheduled [of _ ?gs e] by (simp add: tr cat batchWorker_fulfils)
  have iso: "distinct (map fst entries) \<longrightarrow>
        (\<forall>entry \<in> set entries.
           lookup_result (snd (runIndicators e entries)) (fst entry) = snd (worker_out e entry)
           \<and> (\<forall>e'. same_answers e e' entry \<longrightarrow>
                  lookup_result (snd (runIndicators e' entries)) (fst entry)
                  = lookup_result (snd (runIndicators e entries)) (fst entry)))"
    by (simp add: lookup_run worker_out_local)
  from n cat sz tr sl la rq iso show ?thesis by blast
qed

theorem batch_schedule_witness:
  "distinct (map fst indicators) \<and> (''treasury30y'', ''DGS30'') \<in> set indicators
   \<and> length (groups_of maxConcurrent indicators) = 7
   \<and> count_list (fst (extractEconomicData one_down)) (Sleep delay) = 6
   \<and> lookup_result (snd (extractEconomicData one_down)) ''treasury10y'' = None
   \<and> lookup_result (snd (extractEconomicData one_down)) ''treasury30y''
       = Some \<lparr> iv_value = Num (Fin (41 / 10)), iv_date = ''2024-05-01'',
                 iv_seriesId = ''DGS30'', iv_source = None,
                 iv_realtime_start = Some ''2024-05-02'',
                 iv_realtime_end = Some ''2024-05-02'', iv_units = Some ''Unknown'' \<rparr>"
proof -
  note T = batch_schedule [of indicators one_down]
  have d: "distinct (map fst indicators)" by (simp add: indicators_def)
  have m30: "(''treasury30y'', ''DGS30'') \<in> set indicators" by (simp add: indicators_def)
  have m10: "(''treasury10y'', ''DGS10'') \<in> set indicators" by (simp add: indicators_def)
  have len: "length indicators = 34" by (simp add: indicators_def)
  from T have "length (groups_of maxConcurrent indicators) = nat \<lceil>real (length indicators) / 5\<rceil>"
    by blast
  then have n: "length (groups_of maxConcurrent indicators) = 7"
    by (simp add: len ceiling_divide_eq_div)
  from T have "count_list (fst (runIndicators one_down indicators)) (Sleep delay)
               = length (groups_of maxConcurrent indicators) - 1"
    by blast
  then have s: "count_list (fst (extractEconomicData one_down)) (Sleep delay) = 6"
    by (simp add: n extractEconomicData_def)
  from T d m10 have "lookup_result (snd (runIndicators one_down indicators)) (fst (''treasury10y'', ''DGS10''))
      = snd (worker_out one_down (''treasury10y'', ''DGS10''))"
    by blast
  then have r10: "lookup_result (snd (extractEconomicData one_down)) ''treasury10y'' = None"
    by (simp add: extractEconomicData_def worker_out_def batchWorker_def one_down_def
        fredAttempt_def yahooAttempt_def Let_def)
  from T d m30 have "lookup_result (snd (runIndicators one_down indicators)) (fst (''treasury30y'', ''DGS30''))
      = snd (worker_out one_down (''treasury30y'', ''DGS30''))"
    by blast
  moreover have "parseFloat ''4.1'' = Fin (41 / 10)" by code_simp
  ultimately have r30: "lookup_result (snd (extractEconomicData one_down)) ''treasury30y''
       = Some \<lparr> iv_value = Num (Fin (41 / 10)), iv_date = ''2024-05-01'',
                 iv_seriesId = ''DGS30'', iv_source = None,
                 iv_realtime_start = Some ''2024-05-02'',
                 iv_realtime_end = Some ''2024-05-02'', iv_units = Some ''Unknown'' \<rparr>"
    by (simp add: extractEconomicData_def worker_out_def batchWorker_def one_down_def
        fredAttempt_def body_of_def data_of_def obs_of_def valid_obs_def or_else_def Let_def)
  from d m30 n s r10 r30 show ?thesis by blast
qed

text \<open>
  C5 (as amended). For every treasury indicator key, the Yahoo Finance substitute is
  requested exactly when the FRED attempt throws, that is when the request fails or
  handling the response raises; an answer without a usable value does not count: the
  worker then requests nothing more and stores nothing. The worker never rejects; if the
  substitute fails as well, nothing is stored for the key;
  and whatever Yahoo Finance answers for this key leaves what is stored for every other
  indicator unchanged.
\<close>

theorem yahoo_fallback:
  "js_includes key ''treasury'' \<longrightarrow>
     (RequestYahoo (fallbackSymbol key) \<in> set (fst (worker_out e (key, seriesId))))
       = (\<exists>err. fredAttempt (fred e seriesId) seriesId = Inl err)
     \<and> (\<exists>err. fredAttempt (fred e seriesId) seriesId = Inl err)
         = (fred e seriesId = RequestFails \<or> fred e seriesId = Malformed)
     \<and> batchWorker e (key, seriesId) = Inr (worker_out e (key, seriesId))
     \<and> ((\<exists>err. fredAttempt (fred e seriesId) seriesId = Inl err)
          \<and> yahoo e key (fallbackSymbol key) = YahooFails
          \<longrightarrow> snd (worker_out e (key, seriesId)) = None)
     \<and> (fredAttempt (fred e seriesId) seriesId = Inr None
          \<longrightarrow> worker_out e (key, seriesId) = ([], None))
     \<and> (distinct (map fst entries) \<longrightarrow>
          (\<forall>other \<in> set entries. fst other \<noteq> key \<longrightarrow>
             (\<forall>answer.
                lookup_result (snd (runIndicators (e \<lparr> yahoo := (yahoo e)(key := answer) \<rparr>) entries))
                  (fst other)
                = lookup_result (snd (runIndicators e entries)) (fst other))))"
proof (intro impI conjI)
  assume t: "js_includes key ''treasury''"
  show "(RequestYahoo (fallbackSymbol key) \<in> set (fst (worker_out e (key, seriesId))))
       = (\<exists>err. fredAttempt (fred e seriesId) seriesId = Inl err)"
    using t by (auto simp: worker_out_def batchWorker_def Let_def split: sum.splits)
  show "(\<exists>err. fredAttempt (fred e seriesId) seriesId = Inl err)
         = (fred e seriesId = RequestFails \<or> fred e seriesId = Malformed)"
    by (rule fredAttempt_throws)
  show "batchWorker e (key, seriesId) = Inr (worker_out e (key, seriesId))"
    by (rule batchWorker_fulfils)
  show "(\<exists>err. fredAttempt (fred e seriesId) seriesId = Inl err)
          \<and> yahoo e key (fallbackSymbol key) = YahooFails
          \<Longrightarrow> snd (worker_out e (key, seriesId)) = None"
    using t by (auto simp: worker_out_def batchWorker_def yahooAttempt_def Let_def)
  show "fredAttempt (fred e seriesId) seriesId = Inr None
          \<Longrightarrow> worker_out e (key, seriesId) = ([], None)"
    by (simp add: worker_out_answered)
  show "distinct (map fst entries) \<Longrightarrow>
          \<forall>other \<in> set entries. fst other \<noteq> key \<longrightarrow>
             (\<forall>answer.
                lookup_result (snd (runIndicators (e \<lparr> yahoo := (yahoo e)(key := answer) \<rparr>) entries))
                  (fst other)
                = lookup_result (snd (runIndicators e entries)) (fst other))"
  proof (intro ballI impI allI)
    fix other answer
    assume d: "distinct (map fst entries)" and m: "other \<in> set entries" and k: "fst other \<noteq> key"
    have "same_answers e (e \<lparr> yahoo := (yahoo e)(key := answer) \<rparr>) other"
      using k by (simp add: same_answers_def)
    then show "lookup_result (snd (runIndicators (e \<lparr> yahoo := (yahoo e)(key := answer) \<rparr>) entries))
                  (fst other)
                = lookup_result (snd (runIndicators e entries)) (fst other)"
      by (simp add: lookup_run [OF d m] worker_out_local)
  qed
qed

theorem yahoo_fallback_witness:
  "js_includes ''treasury10y'' ''treasury''
   \<and> fred one_down ''DGS10'' = RequestFails
   \<and> RequestYahoo ''^TNX'' \<in> set (fst (worker_out one_down (''treasury10y'', ''DGS10'')))
   \<and> snd (worker_out one_down (''treasury10y'', ''DGS10'')) = None
   \<and> lookup_result
        (snd (runIndicators (one_down \<lparr> yahoo := (yahoo one_down)(''treasury10y'' := (\<lambda>s. YahooPage price_page)) \<rparr>)
               indicators)) ''treasury30y''
      = lookup_result (snd (runIndicators one_down indicators)) ''treasury30y''
   \<and> fredAttempt (fred placeholder_world ''DGS10'') ''DGS10'' = Inr None
   \<and> worker_out placeholder_world (''treasury10y'', ''DGS10'') = ([], None)"
proof -
  note T = yahoo_fallback [of "''treasury10y''" one_down "''DGS10''" indicators]
  have t: "js_includes ''treasury10y'' ''treasury''" by simp
  have f: "fred one_down ''DGS10'' = RequestFails" by (simp add: one_down_def)
  have y: "yahoo one_down ''treasury10y'' (fallbackSymbol ''treasury10y'') = YahooFails"
    by (simp add: one_down_def)
  have s: "fallbackSymbol ''treasury10y'' = ''^TNX''" by (simp add: fallbackSymbol_def symbolMap_def)
  have d: "distinct (map fst indicators)" by (simp add: indicators_def)
  have m30: "(''treasury30y'', ''DGS30'') \<in> set indicators" by (simp add: indicators_def)
  from T t f have "RequestYahoo (fallbackSymbol ''treasury10y'')
      \<in> set (fst (worker_out one_down (''treasury10y'', ''DGS10'')))"
    by simp
  then have a: "RequestYahoo ''^TNX'' \<in> set (fst (worker_out one_down (''treasury10y'', ''DGS10'')))"
    by (simp only: s)
  from T t f y have b: "snd (worker_out one_down (''treasury10y'', ''DGS10'')) = None"
    by simp
  from T t d m30 have c: "lookup_result
        (snd (runIndicators (one_down \<lparr> yahoo := (yahoo one_down)(''treasury10y'' := (\<lambda>s. YahooPage price_page)) \<rparr>)
               indicators)) ''treasury30y''
      = lookup_result (snd (runIndicators one_down indicators)) ''treasury30y''"
    by force
  have n: "fredAttempt (fred placeholder_world ''DGS10'') ''DGS10'' = Inr None"
    by (simp add: placeholder_world_def fredAttempt_def body_of_def data_of_def obs_of_def
        valid_obs_def)
  from yahoo_fallback [of "''treasury10y''" placeholder_world "''DGS10''" "[]"] t n
  have w: "worker_out placeholder_world (''treasury10y'', ''DGS10'') = ([], None)"
    by blast
  from t f a b c n w show ?thesis by blast
qed

text \<open>
  The claim as stated fails where FRED answers with nothing but the placeholder: the
  attempt ends without a value, no request goes to Yahoo Finance (which would have had
  a price), and the indicator stays absent.
\<close>

theorem yahoo_fallback_counterexample:
  "fredAttempt (fred placeholder_world ''DGS10'') ''DGS10'' = Inr None
   \<and> RequestYahoo ''^TNX'' \<notin> set (fst (extractEconomicData placeholder_world))
   \<and> lookup_result (snd (extractEconomicData placeholder_world)) ''treasury10y'' = None"
proof -
  have a: "fredAttempt (fred placeholder_world s) s = Inr None" for s
    by (simp add: placeholder_world_def fredAttempt_def body_of_def data_of_def obs_of_def valid_obs_def)
  have w: "worker_out placeholder_world en = ([], None)" for en
    by (cases en) (simp add: worker_out_def batchWorker_def a)
  have "RequestYahoo ''^TNX'' \<notin> set (scheduled placeholder_world gs)" for gs
    by (induction gs) (auto simp: scheduled_Cons set_group_requests w)
  moreover have "foldl store r (map (\<lambda>en. (fst en, snd (worker_out placeholder_world en))) es) = r" for r es
    by (induction es) (simp_all add: w store_def)
  ultimately show ?thesis
    by (simp add: a extractEconomicData_def runIndicators_closed lookup_result_def)
qed




subsection \<open>The correlation matrix\<close>

lemma flat_metrics:
  "extractMetrics flat_range_page =
     \<lparr> m_price = Some (Fin 10), m_change = None, m_changePercent = None, m_beta = None,
        m_fiftyTwoWeekHigh = Some (Fin 5), m_fiftyTwoWeekLow = Some (Fin 5), m_volume = None,
        m_relativePosition = Some PosInf \<rparr>"
  by code_simp

lemma keys2: "object_keys [(''AAA'', m), (''BBB'', m')] = [''AAA'', ''BBB'']"
  by (simp add: object_keys_def is_index_def is_digit_def)

lemma nan_estimate:
  "m_beta m = None \<Longrightarrow> m_changePercent m = None \<Longrightarrow> m_relativePosition m = Some PosInf
   \<Longrightarrow> estimate m m = NaN"
  by (simp add: estimate_def capped_def jsub_def)

lemma upt2: "[0 ..< 2] = [0, Suc 0]"
  by (simp add: upt_rec)

lemma capped_fin:
  "\<exists>q. capped (Fin c) = Fin q \<and> - 1 / 2 \<le> q \<and> q \<le> 19 / 20 \<and> (\<exists>n::int. q = of_int n / 1000)"
proof -
  define b where "b = min (95 / 100) (max (- 1 / 2) c)"
  define k where "k = \<lfloor>b * 1000 + 1 / 2\<rfloor>"
  have b: "- 1 / 2 \<le> b" "b \<le> 95 / 100" by (simp_all add: b_def)
  have cb: "capped (Fin c) = Fin (of_int k / 1000)"
    by (simp add: capped_def b_def k_def min_def max_def)
  have "(of_int (- 500 :: int) :: rat) \<le> b * 1000 + 1 / 2" using b(1) by simp
  then have lo: "- 500 \<le> k" unfolding k_def by (simp only: le_floor_iff)
  have "b * 1000 + 1 / 2 < (of_int (951 :: int) :: rat)" using b(2) by simp
  then have "k < 951" unfolding k_def by (simp only: floor_less_iff)
  then have hi: "k \<le> 950" by simp
  have "(of_int (- 500 :: int) :: rat) \<le> of_int k" using lo by (simp only: of_int_le_iff)
  then have l: "- 1 / 2 \<le> (of_int k :: rat) / 1000" by simp
  have "(of_int k :: rat) \<le> of_int (950 :: int)" using hi by (simp only: of_int_le_iff)
  then have h: "(of_int k :: rat) / 1000 \<le> 19 / 20" by simp
  from cb l h show ?thesis by blast
qed

lemma capped_range:
  "capped x = NaN \<or>
   (\<exists>q. capped x = Fin q \<and> - 1 / 2 \<le> q \<and> q \<le> 19 / 20 \<and> (\<exists>n::int. q = of_int n / 1000))"
proof (cases x)
  case (Fin c)
  then show ?thesis using capped_fin [of c] by simp
next
  case PosInf
  have "capped PosInf = capped (Fin (95 / 100))" by (simp add: capped_def)
  then show ?thesis using capped_fin [of "95 / 100"] PosInf by simp
next
  case NegInf
  have "capped NegInf = capped (Fin (- 1 / 2))" by (simp add: capped_def)
  then show ?thesis using capped_fin [of "- 1 / 2"] NegInf by simp
next
  case NaN
  then show ?thesis by (simp add: capped_def)
qed

lemma assign_fresh: "k \<notin> fst ` set r \<Longrightarrow> assign r k v = r @ [(k, v)]"
  by (induction r) auto

lemma fst_assign: "fst ` set (assign r k v) = insert k (fst ` set r)"
  by (induction r) (force split: if_splits)+

lemma distinct_assign: "distinct (map fst r) \<Longrightarrow> distinct (map fst (assign r k v))"
proof (induction r)
  case Nil then show ?case by simp
next
  case (Cons a r)
  then show ?case using fst_assign [of r k v] by (cases a) (auto simp: image_iff)
qed

lemma foldl_assign_index:
  "n \<le> length ks \<Longrightarrow> distinct ks \<Longrightarrow>
   foldl (\<lambda>m i. assign m (ks ! i) (f i)) [] [0 ..< n] = map (\<lambda>i. (ks ! i, f i)) [0 ..< n]"
proof (induction n)
  case 0 then show ?case by simp
next
  case (Suc n)
  have "ks ! n \<notin> fst ` set (map (\<lambda>i. (ks ! i, f i)) [0 ..< n])"
    using Suc.prems by (auto simp: nth_eq_iff_index_eq)
  then show ?case using Suc by (simp add: assign_fresh)
qed

lemma map_of_index:
  "distinct ks \<Longrightarrow> i < length ks \<Longrightarrow>
   map_of (map (\<lambda>i. (ks ! i, f i)) [0 ..< length ks]) (ks ! i) = Some (f i)"
proof -
  assume d: "distinct ks" and i: "i < length ks"
  have "distinct (map fst (map (\<lambda>i. (ks ! i, f i)) [0 ..< length ks]))"
    using d by (simp add: comp_def map_nth)
  moreover have "(ks ! i, f i) \<in> set (map (\<lambda>i. (ks ! i, f i)) [0 ..< length ks])"
    using i by auto
  ultimately show ?thesis by (rule map_of_is_SomeI)
qed

lemma matrix_entry:
  assumes "distinct vs" "i < length vs" "j < length vs"
  shows "entry_of (buildMatrix pd vs) (vs ! i) (vs ! j)
         = Num (if i = j then Fin 1
                else estimate (metrics_of pd (vs ! i)) (metrics_of pd (vs ! j)))"
proof -
  let ?row = "\<lambda>i. matrixRow pd vs i"
  have m: "buildMatrix pd vs = map (\<lambda>i. (vs ! i, ?row i)) [0 ..< length vs]"
    unfolding buildMatrix_def using assms(1) by (intro foldl_assign_index) simp_all
  have r: "?row i = map (\<lambda>j. (vs ! j, if i = j then Fin 1
                else estimate (metrics_of pd (vs ! i)) (metrics_of pd (vs ! j)))) [0 ..< length vs]"
    unfolding matrixRow_def using assms(1) by (intro foldl_assign_index) simp_all
  have "map_of (buildMatrix pd vs) (vs ! i) = Some (?row i)"
    unfolding m using assms(1,2) by (rule map_of_index)
  moreover have "map_of (?row i) (vs ! j) = Some (if i = j then Fin 1
                else estimate (metrics_of pd (vs ! i)) (metrics_of pd (vs ! j)))"
    unfolding r using assms(1,3) by (rule map_of_index)
  ultimately show ?thesis by (simp add: entry_of_def)
qed

lemma distinct_fetchPrices:
  "distinct (map fst pd) \<Longrightarrow> distinct (map fst (fetchPrices net i syms pd))"
  by (induction syms arbitrary: i pd)
     (auto simp: set_property_def distinct_assign split: yahoo_response.splits)

lemma distinct_object_keys: "distinct (map fst obj) \<Longrightarrow> distinct (object_keys obj)"
  by (auto simp: object_keys_def)

lemma length_pairs:
  assumes "distinct xs"
  shows "length (concat (map (\<lambda>a. concat (map (\<lambda>b. if a \<noteq> b then [r a b] else []) xs)) xs))
         = length xs * (length xs - 1)"
proof -
  have inner: "length (concat (map (\<lambda>b. if a \<noteq> b then [r a b] else []) ys))
               = length (filter (\<lambda>b. a \<noteq> b) ys)" for a ys
    by (induction ys) auto
  have others: "a \<in> set xs \<Longrightarrow> length (filter (\<lambda>b. a \<noteq> b) xs) = length xs - 1" for a
  proof -
    assume a: "a \<in> set xs"
    have "length (filter (\<lambda>b. a \<noteq> b) xs) + length (filter (\<lambda>b. \<not> a \<noteq> b) xs) = length xs"
      by (rule sum_length_filter_compl)
    moreover have "filter (\<lambda>b. \<not> a \<noteq> b) xs = [a]"
      using assms a by (induction xs) (auto simp: filter_empty_conv)
    ultimately show ?thesis by simp
  qed
  have "length (concat (map (\<lambda>a. concat (map (\<lambda>b. if a \<noteq> b then [r a b] else []) xs)) ys))
        = length ys * (length xs - 1)" if "set ys \<subseteq> set xs" for ys
    using that by (induction ys) (simp_all add: inner others)
  then show ?thesis by simp
qed

text \<open>
  What holds of every result of the extractor: the symbols are distinct, a symbol paired
  with itself has 1, every other entry is \<^verbatim>\<open>NaN\<close> or a multiple of 0.001 between -0.5 and
  0.95, and the rows are the \<open>k * (k - 1)\<close> ordered pairs of different symbols.
\<close>

lemma estimate_range:
  "estimate m1 m2 = NaN \<or>
   (\<exists>q. estimate m1 m2 = Fin q \<and> - 1 / 2 \<le> q \<and> q \<le> 19 / 20 \<and> (\<exists>n::int. q = of_int n / 1000))"
  unfolding estimate_def Let_def by (rule capped_range)

lemma correlation_shape:
  assumes "extractStockCorrelationData net d symbols = (reqs, Inr (Some cd))"
  shows "distinct (cd_symbols cd)
    \<and> (\<forall>s \<in> set (cd_symbols cd). entry_of (cd_correlationMatrix cd) s s = Num (Fin 1))
    \<and> (\<forall>s1 \<in> set (cd_symbols cd). \<forall>s2 \<in> set (cd_symbols cd). s1 \<noteq> s2 \<longrightarrow>
          (\<exists>x. entry_of (cd_correlationMatrix cd) s1 s2 = Num x
             \<and> (x = NaN \<or> (\<exists>q. x = Fin q \<and> - 1 / 2 \<le> q \<and> q \<le> 19 / 20
                                \<and> (\<exists>n::int. q = of_int n / 1000)))))
    \<and> length (toCorrelationRows (Some cd))
        = length (cd_symbols cd) * (length (cd_symbols cd) - 1)
    \<and> (\<forall>r \<in> set (toCorrelationRows (Some cd)). cr_symbol_1 r \<noteq> cr_symbol_2 r)"
proof -
  define pd where "pd = fetchPrices net 0 symbols []"
  define vs where "vs = object_keys pd"
  from assms have cd: "cd_symbols cd = vs" "cd_correlationMatrix cd = buildMatrix pd vs"
    by (auto simp: extractStockCorrelationData_def correlationBody_def Let_def pd_def vs_def
             split: if_splits)
  have d: "distinct vs"
    unfolding vs_def pd_def by (intro distinct_object_keys distinct_fetchPrices) simp
  have diag: "\<forall>s \<in> set vs. entry_of (buildMatrix pd vs) s s = Num (Fin 1)"
  proof
    fix s assume "s \<in> set vs"
    then obtain i where "i < length vs" "vs ! i = s" by (auto simp: in_set_conv_nth)
    then show "entry_of (buildMatrix pd vs) s s = Num (Fin 1)"
      using matrix_entry [OF d, of i i pd] by simp
  qed
  have off: "\<forall>s1 \<in> set vs. \<forall>s2 \<in> set vs. s1 \<noteq> s2 \<longrightarrow>
          (\<exists>x. entry_of (buildMatrix pd vs) s1 s2 = Num x
             \<and> (x = NaN \<or> (\<exists>q. x = Fin q \<and> - 1 / 2 \<le> q \<and> q \<le> 19 / 20
                                \<and> (\<exists>n::int. q = of_int n / 1000))))"
  proof (intro ballI impI)
    fix s1 s2 assume "s1 \<in> set vs" "s2 \<in> set vs" "s1 \<noteq> s2"
    then obtain i j where ij: "i < length vs" "vs ! i = s1" "j < length vs" "vs ! j = s2" "i \<noteq> j"
      by (auto simp: in_set_conv_nth)
    then have "entry_of (buildMatrix pd vs) s1 s2
               = Num (estimate (metrics_of pd s1) (metrics_of pd s2))"
      using matrix_entry [OF d, of i j pd] by simp
    then show "\<exists>x. entry_of (buildMatrix pd vs) s1 s2 = Num x
             \<and> (x = NaN \<or> (\<exists>q. x = Fin q \<and> - 1 / 2 \<le> q \<and> q \<le> 19 / 20
                                \<and> (\<exists>n::int. q = of_int n / 1000)))"
      using estimate_range [of "metrics_of pd s1" "metrics_of pd s2"] by simp
  qed
  have len: "length (toCorrelationRows (Some cd)) = length vs * (length vs - 1)"
    unfolding toCorrelationRows_def using length_pairs [OF d] by (simp add: cd)
  have neq: "\<forall>r \<in> set (toCorrelationRows (Some cd)). cr_symbol_1 r \<noteq> cr_symbol_2 r"
    by (auto simp: toCorrelationRows_def split: if_splits)
  from d diag off len neq show ?thesis by (simp add: cd)
qed

text \<open>
  C6 (as amended). With fewer than two symbols, \<open>fetchStockCorrelation\<close> fails with the
  error \<^verbatim>\<open>Need at least 2 symbols for correlation analysis\<close> and no page has been
  requested; \<open>extractStockCorrelationData\<close> requests no page either, but it returns
  \<^verbatim>\<open>null\<close>: the error it throws is caught by its own \<^verbatim>\<open>catch\<close>.
\<close>

theorem correlation_precondition:
  "length symbols < 2 \<longrightarrow>
     fetchStockCorrelation net d symbols
       = ([], Inl (Error ''Need at least 2 symbols for correlation analysis''))
     \<and> extractStockCorrelationData net d symbols = ([], Inr None)"
  by (simp add: fetchStockCorrelation_def extractStockCorrelationData_def correlationBody_def)

theorem correlation_precondition_witness:
  "length [''AAPL''] < 2
   \<and> fetchStockCorrelation quiet_net ''2024-05-02'' [''AAPL'']
       = ([], Inl (Error ''Need at least 2 symbols for correlation analysis''))"
  using correlation_precondition [of "[''AAPL'']" quiet_net "''2024-05-02''"] by simp

text \<open>
  The claim as stated fails for the extractor: called with one symbol it does not fail,
  it returns \<^verbatim>\<open>null\<close>.
\<close>

theorem correlation_precondition_counterexample:
  "snd (extractStockCorrelationData quiet_net ''2024-05-02'' [''AAPL''])
     \<noteq> Inl (Error ''Need at least 2 symbols for correlation analysis'')
   \<and> snd (extractStockCorrelationData quiet_net ''2024-05-02'' [''AAPL'']) = Inr None"
  by (simp add: extractStockCorrelationData_def correlationBody_def)

text \<open>
  C10. In every correlation result a symbol paired with itself has 1.0, every other
  entry of the matrix lies between -0.5 and 0.95, and the rows leave out the pairs of a
  symbol with itself. The entries are not all within the bounds: for two symbols whose
  pages show a price of 10 and a 52-week high and low of 5 each, the relative positions
  are both \<^verbatim>\<open>Infinity\<close>, their difference is \<^verbatim>\<open>NaN\<close>, and \<^verbatim>\<open>Math.max\<close> and
  \<^verbatim>\<open>Math.min\<close> hand the \<^verbatim>\<open>NaN\<close> on to the matrix and to the rows.
\<close>

theorem correlation_nan_entry:
  "extractStockCorrelationData flat_net ''2024-05-02'' [''AAA'', ''BBB'']
   = ([''AAA'', ''BBB''],
      Inr (Some \<lparr> cd_symbols = [''AAA'', ''BBB''],
                    cd_priceData = [(''AAA'', extractMetrics flat_range_page),
                                    (''BBB'', extractMetrics flat_range_page)],
                    cd_correlationMatrix =
                      [(''AAA'', [(''AAA'', Fin 1), (''BBB'', NaN)]),
                       (''BBB'', [(''AAA'', NaN), (''BBB'', Fin 1)])],
                    cd_analysisDate = ''2024-05-02'' \<rparr>))
   \<and> map cr_correlation
         (toCorrelationRows
            (Some \<lparr> cd_symbols = [''AAA'', ''BBB''],
                     cd_priceData = [(''AAA'', extractMetrics flat_range_page),
                                     (''BBB'', extractMetrics flat_range_page)],
                     cd_correlationMatrix =
                       [(''AAA'', [(''AAA'', Fin 1), (''BBB'', NaN)]),
                        (''BBB'', [(''AAA'', NaN), (''BBB'', Fin 1)])],
                     cd_analysisDate = ''2024-05-02'' \<rparr>))
       = [Num NaN, Num NaN]"
proof -
  let ?m = "extractMetrics flat_range_page"
  have pd: "fetchPrices flat_net 0 [''AAA'', ''BBB''] [] = [(''AAA'', ?m), (''BBB'', ?m)]"
    by (simp add: flat_net_def set_property_def)
  have e: "estimate ?m ?m = NaN"
    by (rule nan_estimate) (simp_all add: flat_metrics)
  have mx: "buildMatrix [(''AAA'', ?m), (''BBB'', ?m)] [''AAA'', ''BBB'']
            = [(''AAA'', [(''AAA'', Fin 1), (''BBB'', NaN)]),
               (''BBB'', [(''AAA'', NaN), (''BBB'', Fin 1)])]"
    by (simp add: buildMatrix_def matrixRow_def metrics_of_def upt2 e)
  have x: "extractStockCorrelationData flat_net ''2024-05-02'' [''AAA'', ''BBB'']
   = ([''AAA'', ''BBB''],
      Inr (Some \<lparr> cd_symbols = [''AAA'', ''BBB''],
                    cd_priceData = [(''AAA'', ?m), (''BBB'', ?m)],
                    cd_correlationMatrix =
                      [(''AAA'', [(''AAA'', Fin 1), (''BBB'', NaN)]),
                       (''BBB'', [(''AAA'', NaN), (''BBB'', Fin 1)])],
                    cd_analysisDate = ''2024-05-02'' \<rparr>))"
    unfolding extractStockCorrelationData_def correlationBody_def Let_def pd keys2 mx
    by (simp add: object_keys_def is_index_def is_digit_def)
  have r: "map cr_correlation
         (toCorrelationRows
            (Some \<lparr> cd_symbols = [''AAA'', ''BBB''],
                     cd_priceData = [(''AAA'', ?m), (''BBB'', ?m)],
                     cd_correlationMatrix =
                       [(''AAA'', [(''AAA'', Fin 1), (''BBB'', NaN)]),
                        (''BBB'', [(''AAA'', NaN), (''BBB'', Fin 1)])],
                     cd_analysisDate = ''2024-05-02'' \<rparr>))
       = [Num NaN, Num NaN]"
    by (simp add: toCorrelationRows_def entry_of_def)
  from x r show ?thesis by (rule conjI)
qed

subsection \<open>Decoding formatted numbers\<close>

lemma digits_takeWhile:
  "digits ip \<Longrightarrow> (r = [] \<or> \<not> is_digit (hd r)) \<Longrightarrow> takeWhile is_digit (ip @ r) = ip"
  by (cases r) (auto simp: digits_def list_all_iff takeWhile_append2)

lemma digits_dropWhile:
  "digits ip \<Longrightarrow> (r = [] \<or> \<not> is_digit (hd r)) \<Longrightarrow> dropWhile is_digit (ip @ r) = r"
  by (cases r) (auto simp: digits_def list_all_iff dropWhile_append2)

lemma suffix_cases:
  "sfx \<in> set suffixes \<Longrightarrow> sfx = [] \<or> (\<exists>c. sfx = [c] \<and> c \<in> set ''KMBTG'')"
  by (auto simp: suffixes_def)

lemma suffix_char:
  "c \<in> set ''KMBTG'' \<Longrightarrow>
   \<not> is_digit c \<and> c \<noteq> CHR ''.'' \<and> c \<noteq> CHR ''e'' \<and> c \<noteq> CHR ''E'' \<and> c \<noteq> CHR '',''"
  by (auto simp: is_digit_def)

lemma digit_char:
  "is_digit c \<Longrightarrow>
   \<not> is_space c \<and> c \<noteq> CHR ''-'' \<and> c \<noteq> CHR ''+'' \<and> c \<noteq> CHR ''I'' \<and> c \<noteq> CHR '',''
   \<and> c \<noteq> CHR ''.'' \<and> c \<noteq> CHR ''N'' \<and> c \<notin> set ''KMBTG''"
  by (auto simp: is_digit_def is_space_def)

lemma suffix_props:
  assumes "sfx \<in> set suffixes"
  shows "sfx = [] \<or> \<not> is_digit (hd sfx)" "sfx = [] \<or> hd sfx \<noteq> CHR ''.''" "exponent_of sfx = 0"
proof -
  consider "sfx = []" | c where "sfx = [c]" "c \<in> set ''KMBTG''"
    using suffix_cases [OF assms] by blast
  then have "(sfx = [] \<or> \<not> is_digit (hd sfx)) \<and> (sfx = [] \<or> hd sfx \<noteq> CHR ''.'') \<and> exponent_of sfx = 0"
  proof cases
    case 1
    then show ?thesis by (simp add: exponent_of_def)
  next
    case 2
    from suffix_char [OF 2(2)] show ?thesis by (simp add: 2(1) exponent_of_def)
  qed
  then show "sfx = [] \<or> \<not> is_digit (hd sfx)" "sfx = [] \<or> hd sfx \<noteq> CHR ''.''" "exponent_of sfx = 0"
    by simp_all
qed

lemma unsigned_literal_int:
  assumes "ip \<noteq> []" "digits ip" "r = [] \<or> \<not> is_digit (hd r)" "r = [] \<or> hd r \<noteq> CHR ''.''"
  shows "unsigned_literal (ip @ r) = Some (scale10 (of_int (digits_val ip)) (exponent_of r))"
proof -
  have tw: "takeWhile is_digit (ip @ r) = ip" and dw: "dropWhile is_digit (ip @ r) = r"
    using assms(2,3) by (rule digits_takeWhile, rule digits_dropWhile)
  have z: "digits_val [] = 0" by (simp add: digits_val_def)
  show ?thesis
    unfolding unsigned_literal_def Let_def tw dw using assms(1,4) by (cases r) (simp_all add: z)
qed

lemma unsigned_literal_frac:
  assumes "ip \<noteq> []" "digits ip" "digits fp" "r = [] \<or> \<not> is_digit (hd r)"
  shows "unsigned_literal (ip @ CHR ''.'' # fp @ r)
         = Some (scale10 (of_int (digits_val ip) + of_int (digits_val fp) / 10 ^ length fp)
                   (exponent_of r))"
proof -
  have nd: "CHR ''.'' # fp @ r = [] \<or> \<not> is_digit (hd (CHR ''.'' # fp @ r))"
    by (simp add: is_digit_def)
  have tw: "takeWhile is_digit (ip @ CHR ''.'' # fp @ r) = ip"
    and dw: "dropWhile is_digit (ip @ CHR ''.'' # fp @ r) = CHR ''.'' # fp @ r"
    using assms(2) nd by (rule digits_takeWhile, rule digits_dropWhile)
  have tw2: "takeWhile is_digit (fp @ r) = fp" and dw2: "dropWhile is_digit (fp @ r) = r"
    using assms(3,4) by (rule digits_takeWhile, rule digits_dropWhile)
  show ?thesis
    unfolding unsigned_literal_def Let_def tw dw using assms(1) by (simp add: tw2 dw2)
qed

lemma unsigned_literal_decimal:
  assumes "ip \<noteq> []" "digits ip" "digits fp" "sfx \<in> set suffixes"
  shows "unsigned_literal (decimal ip fp @ sfx) = Some (decimal_value ip fp)"
proof (cases "fp = []")
  case True
  have z: "digits_val [] = 0" by (simp add: digits_val_def)
  show ?thesis
    using unsigned_literal_int [OF assms(1,2) suffix_props(1,2) [OF assms(4)]]
    by (simp add: decimal_def decimal_value_def True suffix_props(3) [OF assms(4)] scale10_def z)
next
  case False
  show ?thesis
    using unsigned_literal_frac [OF assms(1,2,3) suffix_props(1) [OF assms(4)]]
    by (simp add: decimal_def decimal_value_def False suffix_props(3) [OF assms(4)] scale10_def)
qed

lemma decimal_head:
  assumes "ip \<noteq> []" "digits ip"
  obtains c rest where "decimal ip fp @ sfx = c # rest" "is_digit c"
proof -
  obtain c cs where ip: "ip = c # cs" using assms(1) by (cases ip) auto
  then have "is_digit c" using assms(2) by (simp add: digits_def)
  moreover have "decimal ip fp @ sfx = c # (cs @ (if fp = [] then [] else CHR ''.'' # fp) @ sfx)"
    by (simp add: decimal_def ip)
  ultimately show ?thesis using that by blast
qed

lemma parseFloat_decimal:
  assumes "ip \<noteq> []" "digits ip" "digits fp" "sfx \<in> set suffixes"
  shows "parseFloat (decimal ip fp @ sfx) = Fin (decimal_value ip fp)"
proof -
  obtain c rest where t: "decimal ip fp @ sfx = c # rest" and c: "is_digit c"
    using decimal_head [OF assms(1,2)] by blast
  have u: "unsigned_literal (c # rest) = Some (decimal_value ip fp)"
    using unsigned_literal_decimal [OF assms] by (simp only: t)
  show ?thesis
    unfolding t parseFloat_def Let_def using digit_char [OF c] by (simp add: u)
qed

lemma rev_upt_Suc: "Suc 0 \<le> n \<Longrightarrow> rev [Suc 0 ..< Suc n] = n # rev [Suc 0 ..< n]"
  by simp

lemma match_here_Plus:
  assumes "run c s = n" "1 \<le> n" "match_here as (drop n s) = Some ps"
  shows "match_here (Plus c # as) s = Some (take n s # ps)"
  using assms by (simp add: rev_upt_Suc del: upt_Suc)

lemma str_match_here:
  "match_here p s = Some ps \<Longrightarrow> str_match p s = Some ps"
  by (cases s) simp_all

lemma run_append:
  assumes "list_all (in_cls c) xs" "r = [] \<or> \<not> in_cls c (hd r)"
  shows "run c (xs @ r) = length xs"
proof (cases r)
  case Nil
  have "\<forall>x \<in> set xs. in_cls c x" using assms(1) by (simp add: list_all_iff)
  then have t: "takeWhile (in_cls c) xs = xs" by (rule takeWhile_eq_all_conv [THEN iffD2])
  show ?thesis unfolding run_def Nil append_Nil2 t ..
next
  case (Cons a r')
  then have "\<not> in_cls c a" using assms(2) by simp
  then have t: "takeWhile (in_cls c) (xs @ a # r') = xs"
    using assms(1) by (simp add: takeWhile_append2 list_all_iff)
  show ?thesis unfolding run_def Cons t ..
qed

lemma decimal_class: "digits ip \<Longrightarrow> digits fp \<Longrightarrow> list_all (in_cls (DigitOr ''.'')) (decimal ip fp)"
  by (auto simp: decimal_def digits_def list_all_iff)

lemma match_suffix:
  assumes "sfx \<in> set suffixes"
  shows "match_here [Opt (AnyOf ''BKMGT'')] sfx = Some [sfx]"
proof -
  consider "sfx = []" | c where "sfx = [c]" "c \<in> set ''KMBTG''"
    using suffix_cases [OF assms] by blast
  then show ?thesis
  proof cases
    case 1 then show ?thesis by (simp add: run_def)
  next
    case 2 then show ?thesis by (auto simp: run_def)
  qed
qed

lemma revenue_match:
  assumes "ip \<noteq> []" "digits ip" "digits fp" "sfx \<in> set suffixes"
  shows "str_match revenuePattern (decimal ip fp @ sfx) = Some [decimal ip fp, sfx]"
proof -
  let ?d = "decimal ip fp"
  have out: "sfx = [] \<or> \<not> in_cls (DigitOr ''.'') (hd sfx)"
    using suffix_props(1,2) [OF assms(4)] by auto
  have r: "run (DigitOr ''.'') (?d @ sfx) = length ?d"
    using decimal_class [OF assms(2,3)] out by (rule run_append)
  have n: "1 \<le> length ?d" using assms(1) by (cases ip) (simp_all add: decimal_def)
  have "match_here [Plus (DigitOr ''.''), Opt (AnyOf ''BKMGT'')] (?d @ sfx)
        = Some (take (length ?d) (?d @ sfx) # [sfx])"
    using r n
    by (rule match_here_Plus) (simp add: match_suffix [OF assms(4)] del: match_here.simps)
  then show ?thesis
    unfolding revenuePattern_def by (intro str_match_here) simp
qed

lemma multiplier_values:
  "multiplier ''K'' = Fin 1000" "multiplier ''M'' = Fin 1000000"
  "multiplier ''B'' = Fin 1000000000" "multiplier ''T'' = Fin 1000000000000"
  "multiplier ''G'' = Fin 1000000000" "multiplier [] = Fin 1"
  by (simp_all add: multiplier_def multipliers_def)

lemma decimal_not_token:
  assumes "ip \<noteq> []" "digits ip"
  shows "decimal ip fp @ sfx \<noteq> []" "decimal ip fp @ sfx \<noteq> ''--''" "decimal ip fp @ sfx \<noteq> ''N/A''"
proof -
  obtain c rest where t: "decimal ip fp @ sfx = c # rest" and c: "is_digit c"
    using decimal_head [OF assms] by blast
  show "decimal ip fp @ sfx \<noteq> []" "decimal ip fp @ sfx \<noteq> ''--''" "decimal ip fp @ sfx \<noteq> ''N/A''"
    using digit_char [OF c] by (simp_all add: t)
qed

lemma parseRevenueValue_decimal:
  assumes "ip \<noteq> []" "digits ip" "digits fp" "sfx \<in> set suffixes"
  shows "parseRevenueValue (decimal ip fp @ sfx)
         = Some (jmul (Fin (decimal_value ip fp)) (multiplier sfx))"
proof -
  have p: "parseFloat (decimal ip fp) = Fin (decimal_value ip fp)"
    using parseFloat_decimal [OF assms(1,2,3), of "[]"] by (simp add: suffixes_def)
  show ?thesis
    using decimal_not_token [OF assms(1,2), of fp sfx]
    by (simp add: parseRevenueValue_def revenue_match [OF assms] p)
qed

lemma getValue_fmt_decimal:
  assumes "ip \<noteq> []" "digits ip" "digits fp" "sfx \<in> set suffixes"
  shows "getValue L (Obj [(''fmt'', Str (decimal ip fp @ sfx))])
         = Inr (Num (jmul (Fin (decimal_value ip fp)) (multiplier sfx)))"
proof -
  have p: "parseFloat (decimal ip fp) = Fin (decimal_value ip fp)"
    using parseFloat_decimal [OF assms(1,2,3), of "[]"] by (simp add: suffixes_def)
  show ?thesis
    by (simp add: getValue_def get_prop_def toString_def revenue_match [OF assms] p)
qed

lemma js_includes_char: "js_includes s [c] \<longleftrightarrow> c \<in> set s"
  by (induction s) auto

lemma decimal_chars:
  assumes "digits ip" "digits fp" "x \<in> set (decimal ip fp)"
  shows "is_digit x \<or> x = CHR ''.''"
proof -
  have "set (decimal ip fp) \<subseteq> set ip \<union> insert (CHR ''.'') (set fp)"
    by (cases "fp = []") (auto simp: decimal_def)
  then show ?thesis using assms by (auto simp: digits_def list_all_iff)
qed

lemma decimal_letter:
  assumes "digits ip" "digits fp" "sfx \<in> set suffixes" "c \<in> set ''KMBTG''"
  shows "c \<in> set (decimal ip fp @ sfx) \<longleftrightarrow> sfx = [c]"
proof -
  have "c \<notin> set (decimal ip fp)"
    using decimal_chars [OF assms(1,2), of c] suffix_char [OF assms(4)] by blast
  moreover have "c \<in> set sfx \<longleftrightarrow> sfx = [c]"
  proof -
    consider "sfx = []" | d where "sfx = [d]"
      using suffix_cases [OF assms(3)] by blast
    then show ?thesis by cases auto
  qed
  ultimately show ?thesis by simp
qed

lemma filter_absent: "c \<notin> set xs \<Longrightarrow> filter (\<lambda>x. x \<noteq> c) xs = xs"
  by (induction xs) auto

lemma strip_commas_decimal:
  assumes "digits ip" "digits fp" "sfx \<in> set suffixes"
  shows "strip_commas (decimal ip fp @ sfx) = decimal ip fp @ sfx"
proof -
  have "CHR '','' \<notin> set (decimal ip fp)"
    using decimal_chars [OF assms(1,2), of "CHR '',''"] by (auto simp: is_digit_def)
  moreover have "CHR '','' \<notin> set sfx"
    using suffix_cases [OF assms(3)] by auto
  ultimately show ?thesis by (simp add: strip_commas_def filter_absent)
qed

lemma parseFinancialValue_body:
  assumes "t \<noteq> []" "t \<noteq> ''--''" "t \<noteq> ''N/A''" "strip_commas t = t"
  shows "parseFinancialValue (Some t) txt =
     (if js_includes t ''T'' then Some (jmul (parseFloat t) (Fin (10 ^ 12)))
      else if js_includes t ''B'' then Some (jmul (parseFloat t) (Fin (10 ^ 9)))
      else if js_includes t ''M'' then Some (jmul (parseFloat t) (Fin (10 ^ 6)))
      else if js_includes t ''K'' then Some (jmul (parseFloat t) (Fin (10 ^ 3)))
      else Some (parseFloat t))"
  by (simp add: parseFinancialValue_def nonempty_def Let_def assms)

lemma parseFinancialValue_decimal:
  assumes "ip \<noteq> []" "digits ip" "digits fp" "sfx \<in> set suffixes"
  shows "parseFinancialValue (Some (decimal ip fp @ sfx)) txt
         = Some (jmul (Fin (decimal_value ip fp))
                   (if sfx = ''G'' then Fin 1 else multiplier sfx))"
proof -
  define t where "t = decimal ip fp @ sfx"
  have ne: "t \<noteq> []" "t \<noteq> ''--''" "t \<noteq> ''N/A''"
    using decimal_not_token [OF assms(1,2), of fp sfx] by (simp_all add: t_def)
  have sc: "strip_commas t = t"
    unfolding t_def by (rule strip_commas_decimal [OF assms(2,3,4)])
  have pf: "parseFloat t = Fin (decimal_value ip fp)"
    unfolding t_def by (rule parseFloat_decimal [OF assms])
  have inc: "js_includes t [c] \<longleftrightarrow> sfx = [c]" if "c \<in> set ''KMBTG''" for c
    unfolding t_def using decimal_letter [OF assms(2,3,4) that] by (simp add: js_includes_char)
  have iT: "js_includes t ''T'' \<longleftrightarrow> sfx = ''T''" by (rule inc) simp
  have iB: "js_includes t ''B'' \<longleftrightarrow> sfx = ''B''" by (rule inc) simp
  have iM: "js_includes t ''M'' \<longleftrightarrow> sfx = ''M''" by (rule inc) simp
  have iK: "js_includes t ''K'' \<longleftrightarrow> sfx = ''K''" by (rule inc) simp
  have body: "parseFinancialValue (Some t) txt =
     (if sfx = ''T'' then Some (jmul (Fin (decimal_value ip fp)) (Fin (10 ^ 12)))
      else if sfx = ''B'' then Some (jmul (Fin (decimal_value ip fp)) (Fin (10 ^ 9)))
      else if sfx = ''M'' then Some (jmul (Fin (decimal_value ip fp)) (Fin (10 ^ 6)))
      else if sfx = ''K'' then Some (jmul (Fin (decimal_value ip fp)) (Fin (10 ^ 3)))
      else Some (Fin (decimal_value ip fp)))"
    unfolding parseFinancialValue_body [OF ne sc] iT iB iM iK pf ..
  consider "sfx = ''T''" | "sfx = ''B''" | "sfx = ''M''" | "sfx = ''K''" | "sfx = ''G''" | "sfx = []"
    using assms(4) by (auto simp: suffixes_def)
  then show ?thesis
    unfolding t_def [symmetric] by cases (simp_all add: body multiplier_values)
qed

text \<open>
  What the three decoders do with a formatted number and a suffix: the first two scale by
  the table of multipliers, \<^verbatim>\<open>G\<close> included; \<open>parseFinancialValue\<close> scales for \<^verbatim>\<open>K\<close>,
  \<^verbatim>\<open>M\<close>, \<^verbatim>\<open>B\<close> and \<^verbatim>\<open>T\<close> and leaves a number with \<^verbatim>\<open>G\<close> as it is. The tokens
  \<^verbatim>\<open>--\<close> and \<^verbatim>\<open>N/A\<close> give \<^verbatim>\<open>null\<close> in all three.
\<close>

lemma decoders_scale:
  assumes "ip \<noteq> []" "digits ip" "digits fp" "sfx \<in> set suffixes"
  shows "parseRevenueValue (decimal ip fp @ sfx)
           = Some (jmul (Fin (decimal_value ip fp)) (multiplier sfx))
       \<and> getValue L (Obj [(''fmt'', Str (decimal ip fp @ sfx))])
           = Inr (Num (jmul (Fin (decimal_value ip fp)) (multiplier sfx)))
       \<and> (sfx \<noteq> ''G'' \<longrightarrow>
            parseFinancialValue (Some (decimal ip fp @ sfx)) txt
              = Some (jmul (Fin (decimal_value ip fp)) (multiplier sfx)))
       \<and> parseFinancialValue (Some (decimal ip fp @ ''G'')) txt = Some (Fin (decimal_value ip fp))"
proof -
  have g: "''G'' \<in> set suffixes" by (simp add: suffixes_def)
  note a = parseRevenueValue_decimal [OF assms]
  note b = getValue_fmt_decimal [OF assms]
  note c = parseFinancialValue_decimal [OF assms]
  note d = parseFinancialValue_decimal [OF assms(1,2,3) g]
  show ?thesis
    by (simp add: a b c d)
qed

lemma tokens_absent:
  "parseRevenueValue ''--'' = None \<and> parseRevenueValue ''N/A'' = None
   \<and> parseFinancialValue (Some ''--'') txt = None \<and> parseFinancialValue (Some ''N/A'') txt = None
   \<and> parseFinancialValue None ''--'' = None \<and> parseFinancialValue None ''N/A'' = None
   \<and> getValue L (Obj [(''fmt'', Str ''--'')]) = Inr Null
   \<and> getValue L (Obj [(''fmt'', Str ''N/A'')]) = Inr Null"
  by (simp add: parseRevenueValue_def parseFinancialValue_def nonempty_def getValue_def
      get_prop_def toString_def revenuePattern_def run_def is_digit_def)

text \<open>
  C2. For a formatted number followed by one of the suffixes K, M, B, T, or G in place
  of B, the decoders return the number scaled by 1e3, 1e6, 1e9, 1e12, and 1e9 for G; a
  number without suffix is left unscaled, and \<^verbatim>\<open>--\<close> and \<^verbatim>\<open>N/A\<close> decode to \<^verbatim>\<open>null\<close>.
  The helper of \<open>extractSummaryData\<close> has no case for G: it decodes \<^verbatim>\<open>1.5G\<close> as 1.5,
  where \<open>parseRevenueValue\<close> and the \<open>getValue\<close> of \<open>toStockSummaryRow\<close> give
  1500000000, and the snapshot of a page that shows the market capitalisation as
  \<^verbatim>\<open>1.5G\<close> holds 1.5.
\<close>

theorem giga_suffix_unscaled:
  "parseFinancialValue (Some ''1.5G'') ''1.5G'' = Some (Fin (3 / 2))
   \<and> parseRevenueValue ''1.5G'' = Some (Fin 1500000000)
   \<and> getValue some_language (Obj [(''fmt'', Str ''1.5G'')]) = Inr (Num (Fin 1500000000))
   \<and> map_option (\<lambda>sd. field_of sd ''marketCap'') (extractSummaryData some_language (Page giga_page))
       = Some (wrapper (Fin (3 / 2)) ''1.5G'')"
  by code_simp

subsection \<open>The summary snapshot\<close>













end
